theory Spec2Isabelle
  imports Main "HOL-Library.List_Lexorder" "HOL-Library.Char_ord" "HOL-Library.Multiset"
begin

section \<open>Data model (types/presentation.ts)\<close>

text \<open>
  The slide document is opaque to the storage layer and to the worker: it is the type
  parameter \<open>'s\<close> throughout. Numbers that hold epoch milliseconds or slide indices
  are integers.
\<close>

datatype PresentationStatus = Processing | Completed | Failed

datatype LogoType = LogoQodea | LogoCustom | LogoText | LogoImage

datatype ColorTheme = ColorsQodea | ColorsCustom

record PresentationTheme =
  logo :: LogoType
  logoText :: "string option"
  logoImage :: "string option"
  colors :: ColorTheme
  videoBackground :: "string option"

text \<open>
  An item of the single table. DynamoDB items are attribute bags: besides the two key
  attributes every attribute may be absent (\<open>None\<close> is JavaScript's \<open>undefined\<close>).
  The attributes are exactly the ones the repository ever writes: the secondary-index
  keys and the \<open>PresentationMetadata\<close> fields on a metadata record, the \<open>SlideItem\<close>
  fields on a slide record (\<open>updatedAt\<close> is shared).
\<close>

record 's Item =
  pk :: string
  sk :: string
  gsi1pk :: "string option"
  gsi1sk :: "string option"
  i_id :: "string option"
  i_title :: "string option"
  i_description :: "string option"
  i_userId :: "string option"
  i_status :: "PresentationStatus option"
  i_createdAt :: "int option"
  i_updatedAt :: "int option"
  i_theme :: "PresentationTheme option"
  i_errorMessage :: "string option"
  i_slideIndex :: "int option"
  i_slide :: "'s option"

text \<open>\<open>Presentation\<close>, as \<open>getPresentation\<close> assembles it from a stored item.\<close>

record 's Presentation =
  p_id :: "string option"
  p_title :: "string option"
  p_description :: "string option"
  p_theme :: "PresentationTheme option"
  p_slides :: "'s option list"

text \<open>\<open>PresentationMetadata\<close>, as \<open>getPresentationMetadata\<close> extracts it.\<close>

record PresentationMetadata =
  m_id :: "string option"
  m_title :: "string option"
  m_description :: "string option"
  m_userId :: "string option"
  m_status :: "PresentationStatus option"
  m_createdAt :: "int option"
  m_updatedAt :: "int option"
  m_theme :: "PresentationTheme option"
  m_errorMessage :: "string option"

text \<open>
  The argument of \<open>savePresentationMetadata\<close>:
  \<open>Omit<PresentationMetadata, "createdAt" | "updatedAt">\<close>, supplied by a typed caller.
\<close>

record MetadataInput =
  in_id :: string
  in_title :: string
  in_description :: "string option"
  in_userId :: string
  in_status :: PresentationStatus
  in_theme :: PresentationTheme
  in_errorMessage :: "string option"

record GeneratePresentationMessage =
  msg_presentationId :: string
  msg_userId :: string
  msg_title :: string
  msg_description :: string
  msg_connectionId :: "string option"

datatype WebSocketMessageType = PresentationCompleted | PresentationFailed | SlideUpdated

record 's WebSocketMessage =
  ws_type :: WebSocketMessageType
  ws_presentationId :: "string option"
  ws_error :: "string option"
  ws_affectedSlides :: "(int \<times> 's) list option"

section \<open>Key construction (libs/presentationRepo.ts)\<close>

definition digitChar :: "nat \<Rightarrow> char" where
  "digitChar d = ''0123456789'' ! d"

text \<open>The decimal numeral of a natural number, most significant digit first.\<close>

function decimal :: "nat \<Rightarrow> string" where
  "decimal n = (if n < 10 then [digitChar n] else decimal (n div 10) @ [digitChar (n mod 10)])"
  by pat_completeness auto
termination
  by (relation "measure id") auto

declare decimal.simps [simp del]

text \<open>
  JavaScript's \<open>String(n)\<close> on an integer \<open>n\<close>. The rendering is the plain decimal
  numeral for magnitudes below \<open>10^21\<close>, which covers every array position.
\<close>

definition String_of :: "int \<Rightarrow> string" where
  "String_of n = (if n < 0 then CHR ''-'' # decimal (nat (- n)) else decimal (nat n))"

text \<open>\<open>String.prototype.padStart(targetLength, padString)\<close>.\<close>

definition padStart :: "nat \<Rightarrow> string \<Rightarrow> string \<Rightarrow> string" where
  "padStart targetLength padString s =
     (if targetLength \<le> length s \<or> padString = [] then s
      else take (targetLength - length s)
             (concat (replicate (targetLength - length s) padString)) @ s)"

datatype SKType = METADATA | SLIDE

definition createPK :: "string \<Rightarrow> string" where
  "createPK presentationId = ''PRESENTATION#'' @ presentationId"

fun createSK :: "SKType \<Rightarrow> int option \<Rightarrow> string" where
  "createSK SLIDE (Some slideIndex) = ''SLIDE#'' @ padStart 3 ''0'' (String_of slideIndex)"
| "createSK _ _ = ''METADATA''"

definition createGSI1PK :: "string \<Rightarrow> string" where
  "createGSI1PK userId = ''USER#'' @ userId"

definition createGSI1SK :: "string \<Rightarrow> string" where
  "createGSI1SK presentationId = ''PRESENTATION#'' @ presentationId"

section \<open>The environment: thrown values, the DynamoDB table, the calls issued\<close>

text \<open>
  A thrown JavaScript value: an \<open>Error\<close> object with its message, or any other value.
\<close>

datatype Thrown = Error string | NonError

text \<open>One assignment of an \<open>UpdateExpression\<close>, with its value substituted.\<close>

datatype Assignment =
    SetStatus PresentationStatus
  | SetUpdatedAt int
  | SetErrorMessage string

text \<open>
  The calls that leave the process, in the order of issue: the document-client commands,
  the timer, and the push to a WebSocket connection.
\<close>

datatype 's Command =
    GetCommand string string
  | QueryCommand string string
  | PutCommand "'s Item"
  | BatchWriteCommand "'s Item list"
  | UpdateCommand string string "Assignment list"
  | SetTimeout nat
  | PostToConnectionCommand string "'s WebSocketMessage"

text \<open>
  The environment's answer to one \<open>send\<close>: the call throws, or it succeeds. For a
  batch write a success carries the positions of the batch that come back in
  \<open>UnprocessedItems\<close> (none: the result has no unprocessed key); the other commands
  ignore the positions. A call that throws leaves the table as it was.
\<close>

datatype Reply = Succeeds "nat list" | Throws Thrown

text \<open>
  The world an operation runs in: the table's items, the answers the environment will
  give to the coming \<open>send\<close> calls (every call after the script's end succeeds in full),
  the calls issued so far, and the number of items the store puts in one page of a
  query answer (\<open>None\<close>: every answer holds all the matching items).
\<close>

record 's World =
  table :: "'s Item list"
  replies :: "Reply list"
  calls :: "'s Command list"
  pageLimit :: "nat option"

definition nextReply :: "'s World \<Rightarrow> Reply" where
  "nextReply w = (case replies w of [] \<Rightarrow> Succeeds [] | r # _ \<Rightarrow> r)"

definition issue :: "'s Command \<Rightarrow> 's World \<Rightarrow> 's World" where
  "issue c w = w\<lparr>replies := tl (replies w), calls := calls w @ [c]\<rparr>"

text \<open>\<open>await new Promise((resolve) => setTimeout(resolve, ms))\<close>: no answer is consumed.\<close>

definition sleep :: "nat \<Rightarrow> 's World \<Rightarrow> 's World" where
  "sleep ms w = w\<lparr>calls := calls w @ [SetTimeout ms]\<rparr>"

subsection \<open>The table\<close>

definition begins_with :: "string \<Rightarrow> string \<Rightarrow> bool" where
  "begins_with s prefix = (take (length prefix) s = prefix)"

definition getItem :: "'s Item list \<Rightarrow> string \<Rightarrow> string \<Rightarrow> 's Item option" where
  "getItem t p s = find (\<lambda>x. pk x = p \<and> sk x = s) t"

text \<open>A put replaces the whole item under its key.\<close>

definition putItem :: "'s Item \<Rightarrow> 's Item list \<Rightarrow> 's Item list" where
  "putItem it t = it # filter (\<lambda>x. \<not> (pk x = pk it \<and> sk x = sk it)) t"

text \<open>
  The items of one partition whose sort key has the prefix, in ascending sort-key
  order (bytewise): what a query reads.
\<close>

definition queryItems :: "'s Item list \<Rightarrow> string \<Rightarrow> string \<Rightarrow> 's Item list" where
  "queryItems t p skPrefix = sort_key sk (filter (\<lambda>x. pk x = p \<and> begins_with (sk x) skPrefix) t)"

text \<open>
  One answer to a query is one page: the first matching items in sort-key order, as
  many as the store puts in a page, or all of them. The answer's \<open>LastEvaluatedKey\<close>
  is left out: the repository never reads it and never asks for a second page.
\<close>

definition firstPage :: "nat option \<Rightarrow> 'a list \<Rightarrow> 'a list" where
  "firstPage limit items = (case limit of None \<Rightarrow> items | Some n \<Rightarrow> take n items)"

definition emptyItem :: "string \<Rightarrow> string \<Rightarrow> 's Item" where
  "emptyItem p s = \<lparr>pk = p, sk = s, gsi1pk = None, gsi1sk = None, i_id = None, i_title = None,
     i_description = None, i_userId = None, i_status = None, i_createdAt = None,
     i_updatedAt = None, i_theme = None, i_errorMessage = None, i_slideIndex = None,
     i_slide = None\<rparr>"

fun assign :: "Assignment \<Rightarrow> 's Item \<Rightarrow> 's Item" where
  "assign (SetStatus v) it = it\<lparr>i_status := Some v\<rparr>"
| "assign (SetUpdatedAt v) it = it\<lparr>i_updatedAt := Some v\<rparr>"
| "assign (SetErrorMessage v) it = it\<lparr>i_errorMessage := Some v\<rparr>"

text \<open>
  An update edits the attributes it names on the item under the key and leaves the
  others; when no item is there it creates one from the key and the assignments.
\<close>

definition updateItem :: "string \<Rightarrow> string \<Rightarrow> Assignment list \<Rightarrow> 's Item list \<Rightarrow> 's Item list" where
  "updateItem p s assignments t =
     putItem (fold assign assignments (case getItem t p s of None \<Rightarrow> emptyItem p s | Some it \<Rightarrow> it)) t"

subsection \<open>\<open>ddbDocClient.send\<close>, one definition per command\<close>

definition sendGet :: "string \<Rightarrow> string \<Rightarrow> 's World \<Rightarrow> (Thrown + 's Item option) \<times> 's World" where
  "sendGet p s w =
     (case nextReply w of
        Throws e \<Rightarrow> (Inl e, issue (GetCommand p s) w)
      | Succeeds _ \<Rightarrow> (Inr (getItem (table w) p s), issue (GetCommand p s) w))"

definition sendQuery :: "string \<Rightarrow> string \<Rightarrow> 's World \<Rightarrow> (Thrown + 's Item list) \<times> 's World" where
  "sendQuery p skPrefix w =
     (case nextReply w of
        Throws e \<Rightarrow> (Inl e, issue (QueryCommand p skPrefix) w)
      | Succeeds _ \<Rightarrow>
          (Inr (firstPage (pageLimit w) (queryItems (table w) p skPrefix)),
           issue (QueryCommand p skPrefix) w))"

definition sendPut :: "'s Item \<Rightarrow> 's World \<Rightarrow> (Thrown + unit) \<times> 's World" where
  "sendPut it w =
     (case nextReply w of
        Throws e \<Rightarrow> (Inl e, issue (PutCommand it) w)
      | Succeeds _ \<Rightarrow> (Inr (), (issue (PutCommand it) w)\<lparr>table := putItem it (table w)\<rparr>))"

definition sendUpdate :: "string \<Rightarrow> string \<Rightarrow> Assignment list \<Rightarrow> 's World \<Rightarrow> (Thrown + unit) \<times> 's World" where
  "sendUpdate p s assignments w =
     (case nextReply w of
        Throws e \<Rightarrow> (Inl e, issue (UpdateCommand p s assignments) w)
      | Succeeds _ \<Rightarrow>
          (Inr (), (issue (UpdateCommand p s assignments) w)
                     \<lparr>table := updateItem p s assignments (table w)\<rparr>))"

text \<open>
  A batch write stores the requests it processes, in order, and returns the others.
\<close>

definition unprocessedOf :: "nat list \<Rightarrow> 'a list \<Rightarrow> 'a list" where
  "unprocessedOf positions batch = map snd (filter (\<lambda>(i, r). i \<in> set positions) (enumerate 0 batch))"

definition processedOf :: "nat list \<Rightarrow> 'a list \<Rightarrow> 'a list" where
  "processedOf positions batch = map snd (filter (\<lambda>(i, r). i \<notin> set positions) (enumerate 0 batch))"

definition sendBatchWrite :: "'s Item list \<Rightarrow> 's World \<Rightarrow> (Thrown + 's Item list) \<times> 's World" where
  "sendBatchWrite batch w =
     (case nextReply w of
        Throws e \<Rightarrow> (Inl e, issue (BatchWriteCommand batch) w)
      | Succeeds positions \<Rightarrow>
          (Inr (unprocessedOf positions batch),
           (issue (BatchWriteCommand batch) w)
             \<lparr>table := fold putItem (processedOf positions batch) (table w)\<rparr>))"

definition sendPostToConnection ::
    "string \<Rightarrow> 's WebSocketMessage \<Rightarrow> 's World \<Rightarrow> (Thrown + unit) \<times> 's World" where
  "sendPostToConnection c m w =
     (case nextReply w of
        Throws e \<Rightarrow> (Inl e, issue (PostToConnectionCommand c m) w)
      | Succeeds _ \<Rightarrow> (Inr (), issue (PostToConnectionCommand c m) w))"

section \<open>PresentationRepository (libs/presentationRepo.ts)\<close>

text \<open>
  \<open>slideItems.sort((a, b) => a.slideIndex - b.slideIndex)\<close>. The comparator's result
  is \<open>NaN\<close> (here \<open>None\<close>) when an item has no \<open>slideIndex\<close>. When every item has
  one, the comparator is a consistent order and the language standard fixes the
  result: the items in ascending order, equal ones in their order of arrival, which
  is what stable insertion by the comparator produces. When some item lacks it, the
  comparator is not consistent and the standard leaves the order to the engine:
  that order is the parameter \<open>engineOrder\<close>, of which nothing is assumed.
\<close>

fun insertBy :: "('a \<Rightarrow> 'a \<Rightarrow> int option) \<Rightarrow> 'a \<Rightarrow> 'a list \<Rightarrow> 'a list" where
  "insertBy compareFn x [] = [x]"
| "insertBy compareFn x (y # ys) =
     (if (case compareFn x y of None \<Rightarrow> 0 | Some v \<Rightarrow> v) \<le> 0 then x # y # ys
      else y # insertBy compareFn x ys)"

text \<open>\<open>(a, b) => a.slideIndex - b.slideIndex\<close>\<close>

definition bySlideIndex :: "'s Item \<Rightarrow> 's Item \<Rightarrow> int option" where
  "bySlideIndex a b =
     (case (i_slideIndex a, i_slideIndex b) of (Some x, Some y) \<Rightarrow> Some (x - y) | _ \<Rightarrow> None)"

definition sortBySlideIndex ::
    "('s Item list \<Rightarrow> 's Item list) \<Rightarrow> 's Item list \<Rightarrow> 's Item list" where
  "sortBySlideIndex engineOrder slideItems =
     (if list_all (\<lambda>x. i_slideIndex x \<noteq> None) slideItems
      then foldr (insertBy bySlideIndex) slideItems []
      else engineOrder slideItems)"

definition getPresentation ::
    "('s Item list \<Rightarrow> 's Item list) \<Rightarrow> string \<Rightarrow> 's World
       \<Rightarrow> (Thrown + 's Presentation option) \<times> 's World" where
  "getPresentation engineOrder presentationId w =
     (case sendGet (createPK presentationId) (createSK METADATA None) w of
        (Inl error, w1) \<Rightarrow> (Inl error, w1)
      | (Inr None, w1) \<Rightarrow> (Inr None, w1)
      | (Inr (Some metadata), w1) \<Rightarrow>
          (case sendQuery (createPK presentationId) ''SLIDE#'' w1 of
             (Inl error, w2) \<Rightarrow> (Inl error, w2)
           | (Inr slideItems, w2) \<Rightarrow>
               (Inr (Some \<lparr>p_id = i_id metadata, p_title = i_title metadata,
                            p_description = i_description metadata, p_theme = i_theme metadata,
                            p_slides = map i_slide (sortBySlideIndex engineOrder slideItems)\<rparr>),
                w2)))"

definition getPresentationMetadata ::
    "string \<Rightarrow> 's World \<Rightarrow> (Thrown + PresentationMetadata option) \<times> 's World" where
  "getPresentationMetadata presentationId w =
     (case sendGet (createPK presentationId) (createSK METADATA None) w of
        (Inl error, w1) \<Rightarrow> (Inl error, w1)
      | (Inr None, w1) \<Rightarrow> (Inr None, w1)
      | (Inr (Some item), w1) \<Rightarrow>
          (Inr (Some \<lparr>m_id = i_id item, m_title = i_title item,
                       m_description = i_description item, m_userId = i_userId item,
                       m_status = i_status item, m_createdAt = i_createdAt item,
                       m_updatedAt = i_updatedAt item, m_theme = i_theme item,
                       m_errorMessage = i_errorMessage item\<rparr>), w1))"

text \<open>
  \<open>existing?.createdAt || now\<close>: the left operand when it is truthy, that is a number
  other than \<open>0\<close>; \<open>now\<close> when there is no existing record, no \<open>createdAt\<close> on it, or
  the number is \<open>0\<close>.
\<close>

definition createdAtOr :: "PresentationMetadata option \<Rightarrow> int \<Rightarrow> int" where
  "createdAtOr existing now =
     (case existing of
        None \<Rightarrow> now
      | Some e \<Rightarrow> (case m_createdAt e of None \<Rightarrow> now | Some c \<Rightarrow> if c = 0 then now else c))"

text \<open>
  The first argument of each operation that stamps a time is the reading of
  \<open>Date.now()\<close> the operation takes.
\<close>

definition savePresentationMetadata ::
    "int \<Rightarrow> MetadataInput \<Rightarrow> 's World \<Rightarrow> (Thrown + unit) \<times> 's World" where
  "savePresentationMetadata now metadata w =
     (case getPresentationMetadata (in_id metadata) w of
        (Inl error, w1) \<Rightarrow> (Inl error, w1)
      | (Inr existing, w1) \<Rightarrow>
          sendPut \<lparr>pk = createPK (in_id metadata), sk = createSK METADATA None,
                   gsi1pk = Some (createGSI1PK (in_userId metadata)),
                   gsi1sk = Some (createGSI1SK (in_id metadata)),
                   i_id = Some (in_id metadata), i_title = Some (in_title metadata),
                   i_description = in_description metadata,
                   i_userId = Some (in_userId metadata), i_status = Some (in_status metadata),
                   i_createdAt = Some (createdAtOr existing now), i_updatedAt = Some now,
                   i_theme = Some (in_theme metadata),
                   i_errorMessage = in_errorMessage metadata,
                   i_slideIndex = None, i_slide = None\<rparr> w1)"

text \<open>The put request \<open>saveSlides\<close> builds for the slide at one array position.\<close>

definition slideRequest :: "string \<Rightarrow> int \<Rightarrow> nat \<Rightarrow> 's \<Rightarrow> 's Item" where
  "slideRequest presentationId now index slide =
     (emptyItem (createPK presentationId) (createSK SLIDE (Some (int index))))
       \<lparr>i_slideIndex := Some (int index), i_slide := Some slide, i_updatedAt := Some now\<rparr>"

definition writeRequests :: "string \<Rightarrow> int \<Rightarrow> 's list \<Rightarrow> 's Item list" where
  "writeRequests presentationId now slides =
     map (\<lambda>(index, slide). slideRequest presentationId now index slide) (enumerate 0 slides)"

text \<open>\<open>Array.prototype.slice(start, end)\<close> for \<open>0 \<le> start \<le> stop\<close>.\<close>

definition slice :: "nat \<Rightarrow> nat \<Rightarrow> 'a list \<Rightarrow> 'a list" where
  "slice start stop xs = take (stop - start) (drop start xs)"

text \<open>The \<open>for\<close> loop of \<open>saveSlides\<close>, from the value \<open>i\<close> of its counter.\<close>

function saveSlidesLoop :: "nat \<Rightarrow> 's Item list \<Rightarrow> 's World \<Rightarrow> (Thrown + unit) \<times> 's World" where
  "saveSlidesLoop i requests w =
     (if i < length requests then
        (case sendBatchWrite (slice i (i + 25) requests) w of
           (Inl error, w1) \<Rightarrow> (Inl error, w1)
         | (Inr unprocessedItems, w1) \<Rightarrow>
             if unprocessedItems \<noteq> [] then
               (case sendBatchWrite unprocessedItems (sleep 1000 w1) of
                  (Inl error, w2) \<Rightarrow> (Inl error, w2)
                | (Inr _, w2) \<Rightarrow> saveSlidesLoop (i + 25) requests w2)
             else saveSlidesLoop (i + 25) requests w1)
      else (Inr (), w))"
  by pat_completeness auto
termination
  by (relation "measure (\<lambda>(i, requests, w). length requests - i)") auto

declare saveSlidesLoop.simps [simp del]

definition saveSlides :: "int \<Rightarrow> string \<Rightarrow> 's list \<Rightarrow> 's World \<Rightarrow> (Thrown + unit) \<times> 's World" where
  "saveSlides now presentationId slides w =
     saveSlidesLoop 0 (writeRequests presentationId now slides) w"

text \<open>
  \<open>if (errorMessage)\<close> tests the optional string for truthiness: the assignment is
  pushed when the argument is present and is not the empty string.
\<close>

definition updatePresentationStatus ::
    "int \<Rightarrow> string \<Rightarrow> PresentationStatus \<Rightarrow> string option \<Rightarrow> 's World \<Rightarrow> (Thrown + unit) \<times> 's World" where
  "updatePresentationStatus now presentationId status errorMessage w =
     sendUpdate (createPK presentationId) (createSK METADATA None)
       ([SetStatus status, SetUpdatedAt now]
          @ (case errorMessage of
               None \<Rightarrow> []
             | Some m \<Rightarrow> if m = [] then [] else [SetErrorMessage m])) w"

section \<open>The queue consumer (handlers/sqs/generatePresentation.ts)\<close>

text \<open>\<open>process.env.WEBSOCKET_API_ENDPOINT || ""\<close>\<close>

definition getWebSocketEndpoint :: "string option \<Rightarrow> string" where
  "getWebSocketEndpoint env = (case env of None \<Rightarrow> [] | Some v \<Rightarrow> v)"

text \<open>
  \<open>notifyWebSocket\<close>: without an endpoint it returns at once; otherwise whatever the
  \<open>try\<close> block throws is caught and not thrown again.
\<close>

definition notifyWebSocket ::
    "string option \<Rightarrow> string \<Rightarrow> 's WebSocketMessage \<Rightarrow> 's World \<Rightarrow> (Thrown + unit) \<times> 's World" where
  "notifyWebSocket env connectionId message w =
     (if getWebSocketEndpoint env = [] then (Inr (), w)
      else (case sendPostToConnection connectionId message w of
              (Inl error, w1) \<Rightarrow> (Inr (), w1)
            | (Inr _, w1) \<Rightarrow> (Inr (), w1)))"

text \<open>
  The \<open>try\<close> block of \<open>processMessage\<close>. \<open>generatePresentation\<close> is the generation
  client: given title and description it throws or returns a presentation, of which the
  worker reads the slides only. \<open>nowSlides\<close> and \<open>nowCompleted\<close> are the readings of
  \<open>Date.now()\<close> in \<open>saveSlides\<close> and in the status update.
\<close>

definition processMessage_try ::
    "string option \<Rightarrow> (string \<Rightarrow> string \<Rightarrow> Thrown + 's list) \<Rightarrow> int \<Rightarrow> int
       \<Rightarrow> GeneratePresentationMessage \<Rightarrow> 's World \<Rightarrow> (Thrown + unit) \<times> 's World" where
  "processMessage_try env generatePresentation nowSlides nowCompleted message w =
     (case generatePresentation (msg_title message) (msg_description message) of
        Inl error \<Rightarrow> (Inl error, w)
      | Inr slides \<Rightarrow>
          (case saveSlides nowSlides (msg_presentationId message) slides w of
             (Inl error, w1) \<Rightarrow> (Inl error, w1)
           | (Inr _, w1) \<Rightarrow>
               (case updatePresentationStatus nowCompleted (msg_presentationId message)
                       Completed None w1 of
                  (Inl error, w2) \<Rightarrow> (Inl error, w2)
                | (Inr _, w2) \<Rightarrow>
                    (case msg_connectionId message of
                       None \<Rightarrow> (Inr (), w2)
                     | Some c \<Rightarrow>
                         if c = [] then (Inr (), w2)
                         else notifyWebSocket env c
                                \<lparr>ws_type = PresentationCompleted,
                                 ws_presentationId = Some (msg_presentationId message),
                                 ws_error = None, ws_affectedSlides = None\<rparr> w2))))"

text \<open>\<open>error instanceof Error ? error.message : "Unknown error"\<close>\<close>

definition errorMessageOf :: "Thrown \<Rightarrow> string" where
  "errorMessageOf error = (case error of Error m \<Rightarrow> m | NonError \<Rightarrow> ''Unknown error'')"

text \<open>
  \<open>processMessage\<close>. \<open>body\<close> is the outcome of \<open>JSON.parse(record.body)\<close>, which runs
  before the \<open>try\<close>; \<open>nowFailed\<close> is the reading of \<open>Date.now()\<close> in the status update
  of the \<open>catch\<close> block.
\<close>

definition processMessage ::
    "string option \<Rightarrow> (string \<Rightarrow> string \<Rightarrow> Thrown + 's list) \<Rightarrow> int \<Rightarrow> int \<Rightarrow> int
       \<Rightarrow> Thrown + GeneratePresentationMessage \<Rightarrow> 's World \<Rightarrow> (Thrown + unit) \<times> 's World" where
  "processMessage env generatePresentation nowSlides nowCompleted nowFailed body w =
     (case body of
        Inl error \<Rightarrow> (Inl error, w)
      | Inr message \<Rightarrow>
          (case processMessage_try env generatePresentation nowSlides nowCompleted message w of
             (Inr _, w1) \<Rightarrow> (Inr (), w1)
           | (Inl error, w1) \<Rightarrow>
               (case updatePresentationStatus nowFailed (msg_presentationId message) Failed
                       (Some (errorMessageOf error)) w1 of
                  (Inl error2, w2) \<Rightarrow> (Inl error2, w2)
                | (Inr _, w2) \<Rightarrow>
                    (case msg_connectionId message of
                       None \<Rightarrow> (Inl error, w2)
                     | Some c \<Rightarrow>
                         if c = [] then (Inl error, w2)
                         else (case notifyWebSocket env c
                                      \<lparr>ws_type = PresentationFailed,
                                       ws_presentationId = Some (msg_presentationId message),
                                       ws_error = Some (errorMessageOf error),
                                       ws_affectedSlides = None\<rparr> w2 of
                                 (Inl error3, w3) \<Rightarrow> (Inl error3, w3)
                               | (Inr _, w3) \<Rightarrow> (Inl error, w3))))))"

section \<open>Environments in which no call throws\<close>

fun succeeds :: "Reply \<Rightarrow> bool" where
  "succeeds (Succeeds _) = True"
| "succeeds (Throws _) = False"

definition allSucceed :: "'s World \<Rightarrow> bool" where
  "allSucceed w = list_all succeeds (replies w)"

text \<open>
  The answer to the query for a partition and a prefix holds every matching item: the
  store sets no limit, or no more items match than a page holds.
\<close>

definition fitsOnePage :: "'s World \<Rightarrow> string \<Rightarrow> string \<Rightarrow> bool" where
  "fitsOnePage w p skPrefix =
     (case pageLimit w of
        None \<Rightarrow> True
      | Some n \<Rightarrow> length (filter (\<lambda>x. pk x = p \<and> begins_with (sk x) skPrefix) (table w)) \<le> n)"

text \<open>
  No stored creation time is \<open>0\<close>. The only place that writes \<open>createdAt\<close> is
  \<open>savePresentationMetadata\<close>.
\<close>

definition createdAtNonZero :: "'s Item list \<Rightarrow> bool" where
  "createdAtNonZero t = list_all (\<lambda>x. i_createdAt x \<noteq> Some 0) t"

text \<open>The numeric sort key of a slide record, for records that carry one.\<close>

definition slideIndexOf :: "'s Item \<Rightarrow> int" where
  "slideIndexOf x = (case i_slideIndex x of None \<Rightarrow> 0 | Some v \<Rightarrow> v)"

section \<open>What the specification says of a full resave\<close>

text \<open>
  The consecutive batches of at most 25 records a list of write requests is cut into,
  in the words of the specification: the first 25 records, then the next 25, and so
  on.
\<close>

function batchesOf :: "'a list \<Rightarrow> 'a list list" where
  "batchesOf xs = (if xs = [] then [] else take 25 xs # batchesOf (drop 25 xs))"
  by pat_completeness auto
termination
  by (relation "measure length") auto

declare batchesOf.simps [simp del]

text \<open>The positions the environment's next answer leaves unprocessed.\<close>

definition unprocessedPositions :: "Reply list \<Rightarrow> nat list" where
  "unprocessedPositions rs = (case rs of Succeeds ps # _ \<Rightarrow> ps | _ \<Rightarrow> [])"

text \<open>
  The calls the specification prescribes for the batches: one batch write per batch,
  in order; when the answer leaves records unprocessed, a wait of one second and one
  batch write of those records, whose answer is not looked at.
\<close>

fun expectedCalls :: "'s Item list list \<Rightarrow> Reply list \<Rightarrow> 's Command list" where
  "expectedCalls [] rs = []"
| "expectedCalls (b # bs) rs =
     (if unprocessedOf (unprocessedPositions rs) b = []
      then BatchWriteCommand b # expectedCalls bs (tl rs)
      else BatchWriteCommand b # SetTimeout 1000
             # BatchWriteCommand (unprocessedOf (unprocessedPositions rs) b)
             # expectedCalls bs (tl (tl rs)))"

text \<open>The calls of the notification step for a job: none without a connection id or an endpoint.\<close>

definition notificationCalls ::
    "string option \<Rightarrow> string option \<Rightarrow> 's WebSocketMessage \<Rightarrow> 's Command list" where
  "notificationCalls env connectionId message =
     (case connectionId of
        None \<Rightarrow> []
      | Some c \<Rightarrow> if c = [] \<or> getWebSocketEndpoint env = [] then []
                  else [PostToConnectionCommand c message])"

section \<open>Example data\<close>

definition exampleTheme :: PresentationTheme where
  "exampleTheme = \<lparr>logo = LogoQodea, logoText = None, logoImage = None, colors = ColorsQodea,
     videoBackground = None\<rparr>"

definition exampleInput :: MetadataInput where
  "exampleInput = \<lparr>in_id = ''p1'', in_title = ''Q4 Review'', in_description = Some ''desc'',
     in_userId = ''a@x.com'', in_status = Processing, in_theme = exampleTheme,
     in_errorMessage = None\<rparr>"

text \<open>The metadata record of presentation \<open>p1\<close>, with the given status, creation time and error message.\<close>

definition exampleMetadata :: "PresentationStatus \<Rightarrow> int \<Rightarrow> string option \<Rightarrow> string Item" where
  "exampleMetadata st created err =
     \<lparr>pk = ''PRESENTATION#p1'', sk = ''METADATA'', gsi1pk = Some ''USER#a@x.com'',
      gsi1sk = Some ''PRESENTATION#p1'', i_id = Some ''p1'', i_title = Some ''Q4 Review'',
      i_description = Some ''desc'', i_userId = Some ''a@x.com'', i_status = Some st,
      i_createdAt = Some created, i_updatedAt = Some created, i_theme = Some exampleTheme,
      i_errorMessage = err, i_slideIndex = None, i_slide = None\<rparr>"

definition exampleWorld :: "string Item list \<Rightarrow> Reply list \<Rightarrow> string World" where
  "exampleWorld items answers =
     \<lparr>table = items, replies = answers, calls = [], pageLimit = None\<rparr>"

definition exampleMessage :: GeneratePresentationMessage where
  "exampleMessage = \<lparr>msg_presentationId = ''p1'', msg_userId = ''a@x.com'',
     msg_title = ''Q4 Review'', msg_description = ''desc'', msg_connectionId = Some ''conn1''\<rparr>"

text \<open>A generation client that throws \<open>Error("No response from OpenAI")\<close>.\<close>

definition failingGeneration :: "string \<Rightarrow> string \<Rightarrow> Thrown + string list" where
  "failingGeneration t d = Inl (Error ''No response from OpenAI'')"

text \<open>A generation client that returns a presentation of one slide.\<close>

definition succeedingGeneration :: "string \<Rightarrow> string \<Rightarrow> Thrown + string list" where
  "succeedingGeneration t d = Inr [''intro'']"

section \<open>Key construction: properties\<close>

lemma decimal_below_10: "n < 10 \<Longrightarrow> decimal n = [digitChar n]"
  by (simp add: decimal.simps)

lemma decimal_below_100:
  assumes "10 \<le> n" "n < 100"
  shows "decimal n = [digitChar (n div 10), digitChar (n mod 10)]"
proof -
  from assms have "n div 10 < 10" by simp
  with assms show ?thesis
    by (subst decimal.simps) (simp add: decimal_below_10)
qed

lemma decimal_below_1000:
  assumes "100 \<le> n" "n < 1000"
  shows "decimal n = [digitChar (n div 100), digitChar (n div 10 mod 10), digitChar (n mod 10)]"
proof -
  from assms have "10 \<le> n div 10" "n div 10 < 100" by simp_all
  then have "decimal (n div 10) = [digitChar (n div 10 div 10), digitChar (n div 10 mod 10)]"
    by (rule decimal_below_100)
  moreover have "n div 10 div 10 = n div 100"
    by (simp add: div_mult2_eq [symmetric])
  ultimately show ?thesis using assms
    by (subst decimal.simps) simp
qed

lemma padStart3_decimal:
  assumes "n \<le> 999"
  shows "padStart 3 ''0'' (decimal n)
           = [digitChar (n div 100), digitChar (n div 10 mod 10), digitChar (n mod 10)]"
proof -
  consider "n < 10" | "10 \<le> n" "n < 100" | "100 \<le> n" "n < 1000"
    using assms by linarith
  then show ?thesis
  proof cases
    case 1
    then show ?thesis
      by (simp add: decimal_below_10 padStart_def digitChar_def numeral_2_eq_2)
  next
    case 2
    then show ?thesis
      by (simp add: decimal_below_100 padStart_def digitChar_def)
  next
    case 3
    then show ?thesis
      by (simp add: decimal_below_1000 padStart_def)
  qed
qed

text \<open>
  C2. For every presentation id, owner id and slide index \<open>i\<close> with \<open>0 \<le> i \<le> 999\<close>:
  the partition key is \<open>PRESENTATION#\<close> followed by the id, the metadata sort key is the
  literal \<open>METADATA\<close>, the slide sort key is \<open>SLIDE#\<close> followed by the three decimal
  digits of \<open>i\<close> (hundreds, tens, units, so padded with zeros on the left), the
  secondary partition key is \<open>USER#\<close> followed by the owner id and the secondary sort key
  is \<open>PRESENTATION#\<close> followed by the id.
\<close>

theorem key_construction_exact:
  assumes "0 \<le> i" and "i \<le> 999"
  shows "createPK presentationId = ''PRESENTATION#'' @ presentationId
       \<and> createSK METADATA None = ''METADATA''
       \<and> createSK SLIDE (Some i)
           = ''SLIDE#'' @ [digitChar (nat i div 100), digitChar (nat i div 10 mod 10),
                           digitChar (nat i mod 10)]
       \<and> length (createSK SLIDE (Some i)) = 9
       \<and> nat i div 100 < 10
       \<and> createGSI1PK ownerId = ''USER#'' @ ownerId
       \<and> createGSI1SK presentationId = ''PRESENTATION#'' @ presentationId"
proof -
  from assms have n: "nat i \<le> 999" by simp
  have sk: "createSK SLIDE (Some i)
           = ''SLIDE#'' @ [digitChar (nat i div 100), digitChar (nat i div 10 mod 10),
                           digitChar (nat i mod 10)]"
    using assms padStart3_decimal [OF n] by (simp add: String_of_def)
  have d: "nat i div 100 < 10" using n by simp
  show ?thesis
    unfolding sk using d by (simp add: createPK_def createGSI1PK_def createGSI1SK_def)
qed

theorem key_construction_exact_witness:
  "createPK ''abc'' = ''PRESENTATION#abc''
     \<and> createSK METADATA None = ''METADATA''
     \<and> createSK SLIDE (Some 7) = ''SLIDE#007''
     \<and> createGSI1PK ''a@x.com'' = ''USER#a@x.com''
     \<and> createGSI1SK ''abc'' = ''PRESENTATION#abc''"
  using key_construction_exact [of 7 "''abc''" "''a@x.com''"]
  by (simp add: digitChar_def)

section \<open>The table and the environment: basic facts\<close>

lemma nextReply_allSucceed: "allSucceed w \<Longrightarrow> \<exists>ps. nextReply w = Succeeds ps"
  by (cases "replies w"; cases "hd (replies w)") (auto simp: allSucceed_def nextReply_def)

lemma allSucceed_issue [simp]: "allSucceed w \<Longrightarrow> allSucceed (issue c w)"
  by (cases "replies w") (auto simp: allSucceed_def issue_def)

lemma allSucceed_table [simp]: "allSucceed (w\<lparr>table := t\<rparr>) = allSucceed w"
  by (simp add: allSucceed_def)

lemma allSucceed_sleep [simp]: "allSucceed (sleep ms w) = allSucceed w"
  by (simp add: allSucceed_def sleep_def)

lemma getItem_putItem_same [simp]: "getItem (putItem it t) (pk it) (sk it) = Some it"
  by (simp add: getItem_def putItem_def)

lemma getItem_filter_other:
  "\<not> (p = p' \<and> s = s') \<Longrightarrow>
   find (\<lambda>x. pk x = p \<and> sk x = s) (filter (\<lambda>x. \<not> (pk x = p' \<and> sk x = s')) t)
     = find (\<lambda>x. pk x = p \<and> sk x = s) t"
  by (induction t) auto

lemma getItem_putItem_other:
  "\<not> (p = pk it \<and> s = sk it) \<Longrightarrow> getItem (putItem it t) p s = getItem t p s"
  using getItem_filter_other [of p "pk it" s "sk it" t]
  by (auto simp: getItem_def putItem_def)

lemma getItem_key: "getItem t p s = Some it \<Longrightarrow> pk it = p \<and> sk it = s"
  unfolding getItem_def by (induction t) (auto split: if_splits)

lemma pk_assign [simp]: "pk (assign a it) = pk it" "sk (assign a it) = sk it"
  by (cases a; simp)+

lemma pk_fold_assign [simp]: "pk (fold assign as it) = pk it \<and> sk (fold assign as it) = sk it"
  by (induction as arbitrary: it) auto

lemma getItem_updateItem_same:
  "getItem (updateItem p s as t) p s
     = Some (fold assign as (case getItem t p s of None \<Rightarrow> emptyItem p s | Some it \<Rightarrow> it))"
proof -
  let ?it = "fold assign as (case getItem t p s of None \<Rightarrow> emptyItem p s | Some it \<Rightarrow> it)"
  have "pk ?it = p \<and> sk ?it = s"
    by (auto simp: emptyItem_def dest: getItem_key split: option.splits)
  then show ?thesis
    unfolding updateItem_def using getItem_putItem_same [of ?it t] by simp
qed

lemma getItem_updateItem_other:
  "\<not> (p' = p \<and> s' = s) \<Longrightarrow> getItem (updateItem p s as t) p' s' = getItem t p' s'"
proof -
  let ?it = "fold assign as (case getItem t p s of None \<Rightarrow> emptyItem p s | Some it \<Rightarrow> it)"
  assume a: "\<not> (p' = p \<and> s' = s)"
  have "pk ?it = p \<and> sk ?it = s"
    by (auto simp: emptyItem_def dest: getItem_key split: option.splits)
  then show ?thesis
    unfolding updateItem_def using getItem_putItem_other [of p' ?it s' t] a by simp
qed

lemma nextReply_issue_allSucceed:
  "allSucceed w \<Longrightarrow> \<exists>ps. nextReply (issue c w) = Succeeds ps"
  by (rule nextReply_allSucceed) simp


section \<open>updatePresentationStatus\<close>

lemma updatePresentationStatus_succeeds:
  assumes "nextReply w = Succeeds ps"
  shows "updatePresentationStatus now presentationId status errorMessage w
     = (Inr (), (issue (UpdateCommand (createPK presentationId) ''METADATA''
           ([SetStatus status, SetUpdatedAt now]
              @ (case errorMessage of None \<Rightarrow> [] | Some m \<Rightarrow> if m = [] then [] else [SetErrorMessage m]))) w)
          \<lparr>table := updateItem (createPK presentationId) ''METADATA''
           ([SetStatus status, SetUpdatedAt now]
              @ (case errorMessage of None \<Rightarrow> [] | Some m \<Rightarrow> if m = [] then [] else [SetErrorMessage m])) (table w)\<rparr>)"
  using assms by (simp add: updatePresentationStatus_def sendUpdate_def)

text \<open>
  C7. A call \<open>updatePresentationStatus(id, status, errorMessage?)\<close> that the store
  accepts, on a stored metadata record: \<open>status\<close> and \<open>updatedAt\<close> are set whatever the
  arguments; \<open>errorMessage\<close> changes only when the argument is provided, and a stored
  message is never cleared (so not by a transition to \<open>completed\<close>, which passes
  none); \<open>title\<close>, \<open>description\<close>, \<open>theme\<close>, \<open>userId\<close>, \<open>createdAt\<close> and \<open>id\<close> keep their
  values.
\<close>

theorem updatePresentationStatus_frame:
  assumes "nextReply w = Succeeds ps"
      and "getItem (table w) (createPK presentationId) (createSK METADATA None) = Some old"
  shows "\<exists>new. fst (updatePresentationStatus now presentationId status errorMessage w) = Inr ()
           \<and> getItem (table (snd (updatePresentationStatus now presentationId status errorMessage w)))
                (createPK presentationId) (createSK METADATA None) = Some new
           \<and> i_status new = Some status \<and> i_updatedAt new = Some now
           \<and> (i_errorMessage new \<noteq> i_errorMessage old \<longrightarrow> errorMessage \<noteq> None)
           \<and> (errorMessage = None \<longrightarrow> i_errorMessage new = i_errorMessage old)
           \<and> (i_errorMessage old \<noteq> None \<longrightarrow> i_errorMessage new \<noteq> None)
           \<and> i_title new = i_title old \<and> i_description new = i_description old
           \<and> i_theme new = i_theme old \<and> i_userId new = i_userId old
           \<and> i_createdAt new = i_createdAt old \<and> i_id new = i_id old"
  using assms
  by (auto simp: updatePresentationStatus_succeeds [OF assms(1)] getItem_updateItem_same split: option.splits)

text \<open>
  C10. \<open>updatePresentationStatus(id, status, "")\<close> does exactly what the call without
  a message does: the empty string is not truthy, so no \<open>errorMessage\<close> assignment is
  issued. In particular a failure whose exception message is empty stores the status
  \<open>failed\<close> and keeps the \<open>errorMessage\<close> that was stored before.
\<close>

theorem updatePresentationStatus_empty_message:
  "updatePresentationStatus now presentationId status (Some '''') w
     = updatePresentationStatus now presentationId status None w
   \<and> errorMessageOf (Error '''') = ''''
   \<and> (\<forall>ps old. nextReply w = Succeeds ps
         \<and> getItem (table w) (createPK presentationId) (createSK METADATA None) = Some old
       \<longrightarrow> (\<exists>new. getItem (table (snd (updatePresentationStatus now presentationId status
                                          (Some '''') w)))
                     (createPK presentationId) (createSK METADATA None) = Some new
                 \<and> i_status new = Some status
                 \<and> i_errorMessage new = i_errorMessage old))"
  by (auto simp: updatePresentationStatus_def sendUpdate_def getItem_updateItem_same errorMessageOf_def)

section \<open>savePresentationMetadata\<close>

lemma getPresentationMetadata_succeeds:
  assumes "nextReply w = Succeeds ps"
  shows "getPresentationMetadata presentationId w
    = (Inr (case getItem (table w) (createPK presentationId) ''METADATA'' of None \<Rightarrow> None
         | Some item \<Rightarrow> Some \<lparr>m_id = i_id item, m_title = i_title item,
                       m_description = i_description item, m_userId = i_userId item,
                       m_status = i_status item, m_createdAt = i_createdAt item,
                       m_updatedAt = i_updatedAt item, m_theme = i_theme item,
                       m_errorMessage = i_errorMessage item\<rparr>),
       issue (GetCommand (createPK presentationId) ''METADATA'') w)"
  using assms by (simp add: getPresentationMetadata_def sendGet_def split: option.splits)

text \<open>
  C9. \<open>savePresentationMetadata\<close> on an id whose metadata record exists, in an
  environment where no call throws: a stored \<open>createdAt\<close> other than \<open>0\<close> is kept, a
  stored \<open>createdAt\<close> of \<open>0\<close> is replaced by the current time (the preserved value is
  \<open>existing?.createdAt || now\<close>), and \<open>updatedAt\<close> is the current time.
\<close>

theorem savePresentationMetadata_createdAt_zero:
  assumes "allSucceed w"
      and "getItem (table w) (createPK (in_id metadata)) (createSK METADATA None) = Some old"
  shows "\<exists>new. fst (savePresentationMetadata now metadata w) = Inr ()
           \<and> getItem (table (snd (savePresentationMetadata now metadata w)))
                (createPK (in_id metadata)) (createSK METADATA None) = Some new
           \<and> (i_createdAt old = Some 0 \<longrightarrow> i_createdAt new = Some now)
           \<and> (\<forall>c. i_createdAt old = Some c \<and> c \<noteq> 0 \<longrightarrow> i_createdAt new = Some c)
           \<and> i_updatedAt new = Some now"
proof -
  obtain ps where ps: "nextReply w = Succeeds ps"
    using nextReply_allSucceed [OF assms(1)] by blast
  obtain qs where qs: "nextReply (issue (GetCommand (createPK (in_id metadata)) ''METADATA'') w) = Succeeds qs"
    using nextReply_issue_allSucceed [OF assms(1)] by blast
  show ?thesis
    using assms(2) qs
    by (simp add: savePresentationMetadata_def getPresentationMetadata_succeeds [OF ps]
          sendPut_def createdAtOr_def getItem_def putItem_def)
qed

section \<open>savePresentationMetadata: the creation time\<close>

lemma createdAtNonZero_Nil: "createdAtNonZero []"
  by (simp add: createdAtNonZero_def)

lemma createdAtNonZero_putItem:
  assumes "createdAtNonZero t" and "i_createdAt it \<noteq> Some 0"
  shows "createdAtNonZero (putItem it t)"
  using assms by (simp add: createdAtNonZero_def putItem_def list_all_iff)

lemma createdAtNonZero_getItem:
  assumes "createdAtNonZero t" and "getItem t p s = Some it"
  shows "i_createdAt it \<noteq> Some 0"
proof -
  from assms(2) have "it \<in> set t"
    unfolding getItem_def by (auto simp: find_Some_iff)
  with assms(1) show ?thesis by (simp add: createdAtNonZero_def list_all_iff)
qed

lemma i_createdAt_fold_assign [simp]: "i_createdAt (fold assign as it) = i_createdAt it"
proof (induction as arbitrary: it)
  case Nil
  then show ?case by simp
next
  case (Cons a as)
  have "i_createdAt (assign a it) = i_createdAt it" by (cases a) simp_all
  with Cons show ?case by simp
qed

lemma createdAtNonZero_updateItem:
  assumes "createdAtNonZero t"
  shows "createdAtNonZero (updateItem p s as t)"
proof (cases "getItem t p s")
  case None
  then show ?thesis
    using assms by (simp add: updateItem_def createdAtNonZero_putItem emptyItem_def)
next
  case (Some it)
  with assms have "i_createdAt it \<noteq> Some 0" by (rule createdAtNonZero_getItem)
  with Some show ?thesis
    using assms by (simp add: updateItem_def createdAtNonZero_putItem)
qed

lemma createdAtNonZero_fold_putItem:
  assumes "createdAtNonZero t" and "\<forall>x\<in>set xs. i_createdAt x \<noteq> Some 0"
  shows "createdAtNonZero (fold putItem xs t)"
  using assms by (induction xs arbitrary: t) (simp_all add: createdAtNonZero_putItem)

text \<open>Every writer of the repository keeps the stored creation times non-zero, whatever the environment answers.\<close>

lemma updatePresentationStatus_createdAtNonZero:
  assumes "createdAtNonZero (table w)"
  shows "createdAtNonZero (table (snd (updatePresentationStatus now presentationId status errorMessage w)))"
  using assms
  by (cases "nextReply w")
     (simp_all add: updatePresentationStatus_def sendUpdate_def issue_def createdAtNonZero_updateItem)

lemma createdAtOr_nonzero:
  assumes "now \<noteq> 0"
  shows "createdAtOr existing now \<noteq> 0"
  using assms by (simp add: createdAtOr_def split: option.splits)

lemma savePresentationMetadata_createdAtNonZero:
  assumes "createdAtNonZero (table w)" and "now \<noteq> 0"
  shows "createdAtNonZero (table (snd (savePresentationMetadata now metadata w)))"
proof (cases "getPresentationMetadata (in_id metadata) w")
  case (Pair r w1)
  have t1: "table w1 = table w"
    using Pair
    by (cases "nextReply w")
       (auto simp: getPresentationMetadata_def sendGet_def issue_def split: option.splits)
  show ?thesis
  proof (cases r)
    case (Inl e)
    with Pair t1 assms(1) show ?thesis by (simp add: savePresentationMetadata_def)
  next
    case (Inr existing)
    with Pair t1 assms show ?thesis
      by (cases "nextReply w1")
         (simp_all add: savePresentationMetadata_def sendPut_def issue_def
            createdAtNonZero_putItem createdAtOr_nonzero)
  qed
qed

lemma sendBatchWrite_createdAtNonZero:
  assumes "createdAtNonZero (table w)" and "\<forall>x\<in>set batch. i_createdAt x \<noteq> Some 0"
  shows "createdAtNonZero (table (snd (sendBatchWrite batch w)))"
proof (cases "nextReply w")
  case (Succeeds ps)
  have "set (processedOf ps batch) \<subseteq> set batch"
    by (auto simp: processedOf_def in_set_enumerate_eq)
  with assms(2) have "\<forall>x\<in>set (processedOf ps batch). i_createdAt x \<noteq> Some 0" by blast
  with assms(1) Succeeds show ?thesis
    by (simp add: sendBatchWrite_def issue_def createdAtNonZero_fold_putItem)
next
  case (Throws e)
  with assms(1) show ?thesis by (simp add: sendBatchWrite_def issue_def)
qed

lemma sendBatchWrite_unprocessed_subset:
  assumes "sendBatchWrite batch w = (Inr u, w1)"
  shows "set u \<subseteq> set batch"
  using assms
  by (cases "nextReply w") (auto simp: sendBatchWrite_def unprocessedOf_def in_set_enumerate_eq)

lemma saveSlidesLoop_createdAtNonZero:
  assumes "createdAtNonZero (table w)" and "\<forall>x\<in>set requests. i_createdAt x \<noteq> Some 0"
  shows "createdAtNonZero (table (snd (saveSlidesLoop i requests w)))"
  using assms(1)
proof (induction "length requests - i" arbitrary: i w rule: less_induct)
  case less
  show ?case
  proof (cases "i < length requests")
    case False
    then show ?thesis using less.prems by (subst saveSlidesLoop.simps) simp
  next
    case True
    let ?batch = "slice i (i + 25) requests"
    have b: "\<forall>x\<in>set ?batch. i_createdAt x \<noteq> Some 0"
      using assms(2) by (auto simp: slice_def dest: in_set_takeD in_set_dropD)
    have m: "length requests - (i + 25) < length requests - i" using True by simp
    obtain r w1 where s1: "sendBatchWrite ?batch w = (r, w1)" by (cases "sendBatchWrite ?batch w")
    have i1: "createdAtNonZero (table w1)"
      using sendBatchWrite_createdAtNonZero [OF less.prems b] s1 by simp
    show ?thesis
    proof (cases r)
      case (Inl e)
      with s1 True i1 show ?thesis by (subst saveSlidesLoop.simps) simp
    next
      case (Inr u)
      show ?thesis
      proof (cases "u = []")
        case True
        have "saveSlidesLoop i requests w = saveSlidesLoop (i + 25) requests w1"
          using \<open>i < length requests\<close> True s1 Inr by (subst saveSlidesLoop.simps) simp
        with less.hyps [OF m i1] show ?thesis by simp
      next
        case False
        have ub: "\<forall>x\<in>set u. i_createdAt x \<noteq> Some 0"
          using sendBatchWrite_unprocessed_subset [of ?batch w u w1] s1 Inr b by blast
        have i1': "createdAtNonZero (table (sleep 1000 w1))" using i1 by (simp add: sleep_def)
        obtain r2 w2 where s2: "sendBatchWrite u (sleep 1000 w1) = (r2, w2)"
          by (cases "sendBatchWrite u (sleep 1000 w1)")
        have i2: "createdAtNonZero (table w2)"
          using sendBatchWrite_createdAtNonZero [OF i1' ub] s2 by simp
        show ?thesis
        proof (cases r2)
          case (Inl e)
          with s1 s2 Inr False \<open>i < length requests\<close> i2 show ?thesis
            by (subst saveSlidesLoop.simps) simp
        next
          case (Inr u2)
          have "saveSlidesLoop i requests w = saveSlidesLoop (i + 25) requests w2"
            using \<open>i < length requests\<close> False s1 s2 \<open>r = Inr u\<close> Inr
            by (subst saveSlidesLoop.simps) simp
          with less.hyps [OF m i2] show ?thesis by simp
        qed
      qed
    qed
  qed
qed

lemma saveSlides_createdAtNonZero:
  assumes "createdAtNonZero (table w)"
  shows "createdAtNonZero (table (snd (saveSlides now presentationId slides w)))"
proof -
  have "\<forall>x\<in>set (writeRequests presentationId now slides). i_createdAt x \<noteq> Some 0"
    by (auto simp: writeRequests_def slideRequest_def emptyItem_def)
  with assms show ?thesis
    unfolding saveSlides_def by (rule saveSlidesLoop_createdAtNonZero)
qed

text \<open>What a save that the store accepts leaves under the metadata key.\<close>

lemma savePresentationMetadata_stored:
  assumes "allSucceed w"
  shows "\<exists>new. fst (savePresentationMetadata now metadata w) = Inr ()
           \<and> allSucceed (snd (savePresentationMetadata now metadata w))
           \<and> getItem (table (snd (savePresentationMetadata now metadata w)))
                (createPK (in_id metadata)) ''METADATA'' = Some new
           \<and> i_updatedAt new = Some now
           \<and> i_createdAt new
               = Some (case getItem (table w) (createPK (in_id metadata)) ''METADATA'' of
                         None \<Rightarrow> now
                       | Some old \<Rightarrow> (case i_createdAt old of
                                        None \<Rightarrow> now
                                      | Some c \<Rightarrow> if c = 0 then now else c))"
proof -
  obtain ps where ps: "nextReply w = Succeeds ps"
    using nextReply_allSucceed [OF assms] by blast
  obtain qs where qs: "nextReply (issue (GetCommand (createPK (in_id metadata)) ''METADATA'') w) = Succeeds qs"
    using nextReply_issue_allSucceed [OF assms] by blast
  show ?thesis
    using qs assms
    by (simp add: savePresentationMetadata_def getPresentationMetadata_succeeds [OF ps]
          sendPut_def createdAtOr_def getItem_def putItem_def split: option.splits)
qed

text \<open>
  C4. \<open>savePresentationMetadata\<close> in an environment where no call throws. Called
  twice with the same id, the first time under a clock that does not read \<open>0\<close>: the
  record left by the second call has the \<open>createdAt\<close> of the record left by the
  first (the first call's time when no record was stored before it) and the second
  call's time as \<open>updatedAt\<close>. More generally, when a metadata record is stored for
  the id and the stored creation times are non-zero, the call keeps the record's
  \<open>createdAt\<close> and stamps the current time as \<open>updatedAt\<close>. The stored creation times
  are non-zero in the empty table and stay so under every write of the repository
  whose clock does not read \<open>0\<close>.
\<close>

theorem savePresentationMetadata_preserves_createdAt:
  assumes "allSucceed w" and "in_id metadata2 = in_id metadata1"
  shows "(now1 \<noteq> 0 \<longrightarrow>
            (\<exists>first second.
                getItem (table (snd (savePresentationMetadata now1 metadata1 w)))
                  (createPK (in_id metadata1)) (createSK METADATA None) = Some first
              \<and> getItem (table (snd (savePresentationMetadata now2 metadata2
                                        (snd (savePresentationMetadata now1 metadata1 w)))))
                  (createPK (in_id metadata1)) (createSK METADATA None) = Some second
              \<and> (getItem (table w) (createPK (in_id metadata1)) (createSK METADATA None) = None
                   \<longrightarrow> i_createdAt first = Some now1)
              \<and> i_updatedAt first = Some now1
              \<and> i_createdAt second = i_createdAt first
              \<and> i_updatedAt second = Some now2))
       \<and> (createdAtNonZero (table w) \<longrightarrow>
            (\<forall>old c. getItem (table w) (createPK (in_id metadata1)) (createSK METADATA None) = Some old
                  \<and> i_createdAt old = Some c
               \<longrightarrow> (\<exists>new. getItem (table (snd (savePresentationMetadata now1 metadata1 w)))
                             (createPK (in_id metadata1)) (createSK METADATA None) = Some new
                      \<and> i_createdAt new = Some c
                      \<and> i_updatedAt new = Some now1)))
       \<and> (createdAtNonZero (table w) \<and> now1 \<noteq> 0
            \<longrightarrow> createdAtNonZero (table (snd (savePresentationMetadata now1 metadata1 w))))"
proof (intro conjI impI allI)
  assume n: "now1 \<noteq> 0"
  let ?w1 = "snd (savePresentationMetadata now1 metadata1 w)"
  let ?w2 = "snd (savePresentationMetadata now2 metadata2 ?w1)"
  let ?v = "case getItem (table w) (createPK (in_id metadata1)) ''METADATA'' of
              None \<Rightarrow> now1
            | Some old \<Rightarrow> (case i_createdAt old of
                             None \<Rightarrow> now1 | Some c \<Rightarrow> if c = 0 then now1 else c)"
  from savePresentationMetadata_stored [OF assms(1), of now1 metadata1]
  obtain first where a1: "allSucceed ?w1"
    and g1: "getItem (table ?w1) (createPK (in_id metadata1)) ''METADATA'' = Some first"
    and u1: "i_updatedAt first = Some now1"
    and c1: "i_createdAt first = Some ?v"
    by blast
  have v: "?v \<noteq> 0" using n by (simp split: option.splits)
  from savePresentationMetadata_stored [OF a1, of now2 metadata2]
  obtain second where g2: "getItem (table ?w2) (createPK (in_id metadata1)) ''METADATA'' = Some second"
    and u2: "i_updatedAt second = Some now2"
    and c2: "i_createdAt second = Some ?v"
    using g1 c1 v by (auto simp: assms(2))
  have e: "getItem (table w) (createPK (in_id metadata1)) (createSK METADATA None) = None
             \<longrightarrow> i_createdAt first = Some now1"
    using c1 by simp
  from c1 c2 have cc: "i_createdAt second = i_createdAt first" by simp
  from g1 g2 e u1 cc u2
  show "\<exists>first second.
                getItem (table ?w1) (createPK (in_id metadata1)) (createSK METADATA None) = Some first
              \<and> getItem (table ?w2) (createPK (in_id metadata1)) (createSK METADATA None) = Some second
              \<and> (getItem (table w) (createPK (in_id metadata1)) (createSK METADATA None) = None
                   \<longrightarrow> i_createdAt first = Some now1)
              \<and> i_updatedAt first = Some now1
              \<and> i_createdAt second = i_createdAt first
              \<and> i_updatedAt second = Some now2"
    by (intro exI [of _ first] exI [of _ second]) simp
next
  fix old c
  assume inv: "createdAtNonZero (table w)"
    and h: "getItem (table w) (createPK (in_id metadata1)) (createSK METADATA None) = Some old
              \<and> i_createdAt old = Some c"
  then have g: "getItem (table w) (createPK (in_id metadata1)) ''METADATA'' = Some old"
    and oc: "i_createdAt old = Some c"
    by simp_all
  from createdAtNonZero_getItem [OF inv g] oc have "c \<noteq> 0" by simp
  with savePresentationMetadata_stored [OF assms(1), of now1 metadata1] g oc
  show "\<exists>new. getItem (table (snd (savePresentationMetadata now1 metadata1 w)))
                 (createPK (in_id metadata1)) (createSK METADATA None) = Some new
          \<and> i_createdAt new = Some c \<and> i_updatedAt new = Some now1"
    by auto
next
  assume "createdAtNonZero (table w) \<and> now1 \<noteq> 0"
  then show "createdAtNonZero (table (snd (savePresentationMetadata now1 metadata1 w)))"
    using savePresentationMetadata_createdAtNonZero by blast
qed

section \<open>getPresentation\<close>

lemma insertBy_insort_key:
  assumes "i_slideIndex x \<noteq> None" and "\<forall>y\<in>set ys. i_slideIndex y \<noteq> None"
  shows "insertBy bySlideIndex x ys = insort_key slideIndexOf x ys"
  using assms by (induction ys) (auto simp: bySlideIndex_def slideIndexOf_def)

lemma foldr_insertBy_sort_key:
  assumes "\<forall>x\<in>set xs. i_slideIndex x \<noteq> None"
  shows "foldr (insertBy bySlideIndex) xs [] = sort_key slideIndexOf xs"
  using assms
proof (induction xs)
  case Nil
  then show ?case by simp
next
  case (Cons x xs)
  then have "foldr (insertBy bySlideIndex) xs [] = sort_key slideIndexOf xs" by simp
  moreover have "\<forall>y\<in>set (sort_key slideIndexOf xs). i_slideIndex y \<noteq> None"
    using Cons.prems by simp
  ultimately show ?case
    using Cons.prems insertBy_insort_key [of x "sort_key slideIndexOf xs"]
    by simp
qed

lemma sortBySlideIndex_sort_key:
  assumes "\<forall>x\<in>set xs. i_slideIndex x \<noteq> None"
  shows "sortBySlideIndex engineOrder xs = sort_key slideIndexOf xs"
  using assms foldr_insertBy_sort_key [OF assms]
  by (simp add: sortBySlideIndex_def list_all_iff)

lemma sortBySlideIndex_Nil [simp]: "sortBySlideIndex engineOrder [] = []"
  by (simp add: sortBySlideIndex_def)

lemma firstPage_Nil [simp]: "firstPage limit [] = []"
  by (cases limit) (simp_all add: firstPage_def)


lemma firstPage_fits:
  assumes "fitsOnePage w p s"
  shows "firstPage (pageLimit w) (queryItems (table w) p s) = queryItems (table w) p s"
proof (cases "pageLimit w")
  case None
  then show ?thesis by (simp add: firstPage_def)
next
  case (Some n)
  have "length (queryItems (table w) p s)
          = length (filter (\<lambda>x. pk x = p \<and> begins_with (sk x) s) (table w))"
    unfolding queryItems_def by (rule length_sort)
  with assms Some have "length (queryItems (table w) p s) \<le> n"
    by (simp add: fitsOnePage_def)
  with Some show ?thesis by (simp add: firstPage_def)
qed

lemma getPresentation_succeeds:
  assumes "allSucceed w"
  shows "getPresentation engineOrder presentationId w
    = (case getItem (table w) (createPK presentationId) ''METADATA'' of
         None \<Rightarrow> (Inr None, issue (GetCommand (createPK presentationId) ''METADATA'') w)
       | Some metadata \<Rightarrow>
          (Inr (Some \<lparr>p_id = i_id metadata, p_title = i_title metadata,
                       p_description = i_description metadata, p_theme = i_theme metadata,
                       p_slides = map i_slide (sortBySlideIndex engineOrder
                          (firstPage (pageLimit w)
                             (queryItems (table w) (createPK presentationId) ''SLIDE#'')))\<rparr>),
           issue (QueryCommand (createPK presentationId) ''SLIDE#'')
             (issue (GetCommand (createPK presentationId) ''METADATA'') w)))"
proof -
  obtain ps where ps: "nextReply w = Succeeds ps"
    using nextReply_allSucceed [OF assms] by blast
  obtain qs where qs: "nextReply (issue (GetCommand (createPK presentationId) ''METADATA'') w) = Succeeds qs"
    using nextReply_issue_allSucceed [OF assms] by blast
  show ?thesis
    using ps qs
    by (simp add: getPresentation_def sendGet_def sendQuery_def issue_def split: option.splits)
qed

lemma getPresentation_found:
  assumes "allSucceed w"
      and "getItem (table w) (createPK presentationId) ''METADATA'' = Some metadata"
  shows "fst (getPresentation engineOrder presentationId w)
     = Inr (Some \<lparr>p_id = i_id metadata, p_title = i_title metadata,
                       p_description = i_description metadata, p_theme = i_theme metadata,
                       p_slides = map i_slide (sortBySlideIndex engineOrder
                          (firstPage (pageLimit w)
                             (queryItems (table w) (createPK presentationId) ''SLIDE#'')))\<rparr>)"
  by (simp add: getPresentation_succeeds [OF assms(1)] assms(2))


lemma sorted_wrt_slideIndex:
  assumes "sorted (map slideIndexOf xs)" and "\<forall>x\<in>set xs. i_slideIndex x \<noteq> None"
  shows "sorted_wrt (\<lambda>a b. \<exists>m n. i_slideIndex a = Some m \<and> i_slideIndex b = Some n \<and> m \<le> n) xs"
proof -
  have "sorted_wrt (\<lambda>a b. slideIndexOf a \<le> slideIndexOf b) xs"
    using assms(1) by (simp only: sorted_map)
  moreover have "\<exists>m n. i_slideIndex x = Some m \<and> i_slideIndex y = Some n \<and> m \<le> n"
    if "x \<in> set xs" "y \<in> set xs" "slideIndexOf x \<le> slideIndexOf y" for x y
  proof -
    from that(1) assms(2) obtain m where m: "i_slideIndex x = Some m" by auto
    from that(2) assms(2) obtain n where n: "i_slideIndex y = Some n" by auto
    from that(3) m n have "m \<le> n" by (simp add: slideIndexOf_def)
    with m n show ?thesis by simp
  qed
  ultimately show ?thesis by (rule sorted_wrt_mono_rel [rotated])
qed

lemma sortBySlideIndex_sorted:
  assumes "\<forall>x\<in>set xs. i_slideIndex x \<noteq> None"
  shows "mset (sortBySlideIndex engineOrder xs) = mset xs
       \<and> sorted_wrt (\<lambda>a b. \<exists>m n. i_slideIndex a = Some m \<and> i_slideIndex b = Some n \<and> m \<le> n)
            (sortBySlideIndex engineOrder xs)"
proof -
  have a: "sortBySlideIndex engineOrder xs = sort_key slideIndexOf xs"
    using assms by (rule sortBySlideIndex_sort_key)
  have "\<forall>x\<in>set (sort_key slideIndexOf xs). i_slideIndex x \<noteq> None"
    using assms by simp
  moreover have "sorted (map slideIndexOf (sort_key slideIndexOf xs))"
    by simp
  ultimately have "sorted_wrt (\<lambda>a b. \<exists>m n. i_slideIndex a = Some m \<and> i_slideIndex b = Some n \<and> m \<le> n)
            (sort_key slideIndexOf xs)"
    by (rule sorted_wrt_slideIndex [rotated])
  then show ?thesis by (simp add: a)
qed

text \<open>
  The items \<open>getPresentation\<close> takes its slides from, when the query's answer fits
  one page and the slide records carry their \<open>slideIndex\<close>: all the stored slide
  records, in ascending \<open>slideIndex\<close>.
\<close>

lemma slideItems_sorted:
  assumes "fitsOnePage w p ''SLIDE#''"
      and "\<forall>x\<in>set (table w). pk x = p \<and> begins_with (sk x) ''SLIDE#'' \<longrightarrow> i_slideIndex x \<noteq> None"
  shows "mset (sortBySlideIndex engineOrder (firstPage (pageLimit w) (queryItems (table w) p ''SLIDE#'')))
           = mset (filter (\<lambda>x. pk x = p \<and> begins_with (sk x) ''SLIDE#'') (table w))"
    and "sorted_wrt (\<lambda>a b. \<exists>m n. i_slideIndex a = Some m \<and> i_slideIndex b = Some n \<and> m \<le> n)
           (sortBySlideIndex engineOrder (firstPage (pageLimit w) (queryItems (table w) p ''SLIDE#'')))"
proof -
  let ?stored = "filter (\<lambda>x. pk x = p \<and> begins_with (sk x) ''SLIDE#'') (table w)"
  let ?q = "queryItems (table w) p ''SLIDE#''"
  have q: "?q = sort_key sk ?stored" by (simp add: queryItems_def)
  have pg: "firstPage (pageLimit w) ?q = ?q" using assms(1) by (rule firstPage_fits)
  from assms(2) have "\<forall>x\<in>set ?q. i_slideIndex x \<noteq> None" by (simp add: q)
  from sortBySlideIndex_sorted [OF this, of engineOrder]
  have "mset (sortBySlideIndex engineOrder ?q) = mset ?q"
    and s: "sorted_wrt (\<lambda>a b. \<exists>m n. i_slideIndex a = Some m \<and> i_slideIndex b = Some n \<and> m \<le> n)
            (sortBySlideIndex engineOrder ?q)"
    by simp_all
  then have "mset (sortBySlideIndex engineOrder ?q) = mset ?stored" by (simp add: q)
  then show "mset (sortBySlideIndex engineOrder (firstPage (pageLimit w) ?q)) = mset ?stored"
    by (simp only: pg)
  from s show "sorted_wrt (\<lambda>a b. \<exists>m n. i_slideIndex a = Some m \<and> i_slideIndex b = Some n \<and> m \<le> n)
           (sortBySlideIndex engineOrder (firstPage (pageLimit w) ?q))"
    by (simp only: pg)
qed



section \<open>saveSlides with an empty array\<close>

lemma saveSlides_empty: "saveSlides now presentationId [] w = (Inr (), w)"
  by (simp add: saveSlides_def writeRequests_def saveSlidesLoop.simps)

text \<open>
  C8. \<open>saveSlides(id, [])\<close> builds no write request and its loop runs zero times: it
  returns normally and leaves the world as it was, so no call is issued and every
  stored record, metadata and slides, is unchanged.
\<close>

theorem saveSlides_empty_no_write:
  "saveSlides now presentationId [] w = (Inr (), w)
   \<and> writeRequests presentationId now ([] :: 's list) = []
   \<and> table (snd (saveSlides now presentationId ([] :: 's list) w)) = table w
   \<and> calls (snd (saveSlides now presentationId ([] :: 's list) w)) = calls w"
  by (simp add: saveSlides_empty writeRequests_def)

text \<open>
  C1 (as amended). \<open>saveSlides(id, [])\<close> followed by \<open>getPresentation(id)\<close> returns what
  \<open>getPresentation(id)\<close> returns without the call. With the metadata record present,
  no call throwing, the query's answer fitting one page and the slide records
  carrying their \<open>slideIndex\<close>, that is the presentation with the metadata's fields and
  the slides of every slide record stored for the id, in ascending \<open>slideIndex\<close>; its
  slide list is empty exactly when no slide record was stored for the id before the
  call.
\<close>

theorem saveSlides_empty_then_getPresentation:
  "getPresentation engineOrder presentationId (snd (saveSlides now presentationId [] w))
     = getPresentation engineOrder presentationId w
   \<and> (allSucceed w \<and> fitsOnePage w (createPK presentationId) ''SLIDE#''
        \<and> (\<forall>x\<in>set (table w). pk x = createPK presentationId \<and> begins_with (sk x) ''SLIDE#''
              \<longrightarrow> i_slideIndex x \<noteq> None)
      \<longrightarrow> (\<forall>metadata. getItem (table w) (createPK presentationId) (createSK METADATA None) = Some metadata
          \<longrightarrow> (\<exists>p items. fst (getPresentation engineOrder presentationId
                                  (snd (saveSlides now presentationId [] w))) = Inr (Some p)
                  \<and> p_id p = i_id metadata \<and> p_title p = i_title metadata
                  \<and> p_description p = i_description metadata \<and> p_theme p = i_theme metadata
                  \<and> p_slides p = map i_slide items
                  \<and> mset items = mset (filter (\<lambda>x. pk x = createPK presentationId
                                            \<and> begins_with (sk x) ''SLIDE#'') (table w))
                  \<and> sorted_wrt (\<lambda>a b. \<exists>m n. i_slideIndex a = Some m
                        \<and> i_slideIndex b = Some n \<and> m \<le> n) items
                  \<and> (p_slides p = [] \<longleftrightarrow>
                       filter (\<lambda>x. pk x = createPK presentationId \<and> begins_with (sk x) ''SLIDE#'')
                         (table w) = []))))"
proof (intro conjI impI allI)
  show "getPresentation engineOrder presentationId (snd (saveSlides now presentationId [] w))
     = getPresentation engineOrder presentationId w"
    by (simp add: saveSlides_empty)
next
  fix metadata
  let ?stored = "filter (\<lambda>x. pk x = createPK presentationId \<and> begins_with (sk x) ''SLIDE#'') (table w)"
  assume h: "allSucceed w \<and> fitsOnePage w (createPK presentationId) ''SLIDE#''
        \<and> (\<forall>x\<in>set (table w). pk x = createPK presentationId \<and> begins_with (sk x) ''SLIDE#''
              \<longrightarrow> i_slideIndex x \<noteq> None)"
    and "getItem (table w) (createPK presentationId) (createSK METADATA None) = Some metadata"
  then have a: "allSucceed w"
    and g: "getItem (table w) (createPK presentationId) ''METADATA'' = Some metadata"
    by simp_all
  from h have h1: "fitsOnePage w (createPK presentationId) ''SLIDE#''"
    and h2: "\<forall>x\<in>set (table w). pk x = createPK presentationId \<and> begins_with (sk x) ''SLIDE#''
              \<longrightarrow> i_slideIndex x \<noteq> None"
    by simp_all
  let ?items = "sortBySlideIndex engineOrder (firstPage (pageLimit w)
                  (queryItems (table w) (createPK presentationId) ''SLIDE#''))"
  let ?p = "\<lparr>p_id = i_id metadata, p_title = i_title metadata,
             p_description = i_description metadata, p_theme = i_theme metadata,
             p_slides = map i_slide ?items\<rparr>"
  have p: "fst (getPresentation engineOrder presentationId
                   (snd (saveSlides now presentationId [] w))) = Inr (Some ?p)"
    using getPresentation_found [OF a g, of engineOrder] by (simp add: saveSlides_empty)
  have f: "p_id ?p = i_id metadata" "p_title ?p = i_title metadata"
          "p_description ?p = i_description metadata" "p_theme ?p = i_theme metadata"
    by simp_all
  have s: "p_slides ?p = map i_slide ?items" by simp
  note so = slideItems_sorted [OF h1 h2, of engineOrder]
  from so(1) have "length ?items = length ?stored" by (rule mset_eq_length)
  then have "?items = [] \<longleftrightarrow> ?stored = []" by (simp only: length_0_conv [symmetric])
  then have e: "p_slides ?p = [] \<longleftrightarrow> ?stored = []" by simp
  from p f s so e
  show "\<exists>p items. fst (getPresentation engineOrder presentationId
                                  (snd (saveSlides now presentationId [] w))) = Inr (Some p)
                  \<and> p_id p = i_id metadata \<and> p_title p = i_title metadata
                  \<and> p_description p = i_description metadata \<and> p_theme p = i_theme metadata
                  \<and> p_slides p = map i_slide items
                  \<and> mset items = mset ?stored
                  \<and> sorted_wrt (\<lambda>a b. \<exists>m n. i_slideIndex a = Some m
                        \<and> i_slideIndex b = Some n \<and> m \<le> n) items
                  \<and> (p_slides p = [] \<longleftrightarrow> ?stored = [])"
    by (intro exI [of _ ?p] exI [of _ ?items] conjI)
qed

section \<open>saveSlides: the batch loop\<close>

lemma nextReply_positions:
  "nextReply w = Succeeds ps \<Longrightarrow> unprocessedPositions (replies w) = ps"
  by (auto simp: nextReply_def unprocessedPositions_def split: list.splits)

lemma sendBatchWrite_succeeds:
  assumes "nextReply w = Succeeds ps"
  shows "sendBatchWrite batch w
    = (Inr (unprocessedOf ps batch),
       (issue (BatchWriteCommand batch) w)\<lparr>table := fold putItem (processedOf ps batch) (table w)\<rparr>)"
  using assms by (simp add: sendBatchWrite_def)

lemma replies_issue [simp]: "replies (issue c w) = tl (replies w)"
  and calls_issue [simp]: "calls (issue c w) = calls w @ [c]"
  and table_issue [simp]: "table (issue c w) = table w"
  by (simp_all add: issue_def)

lemma replies_sleep [simp]: "replies (sleep ms w) = replies w"
  and calls_sleep [simp]: "calls (sleep ms w) = calls w @ [SetTimeout ms]"
  and table_sleep [simp]: "table (sleep ms w) = table w"
  by (simp_all add: sleep_def)

lemma batchesOf_drop:
  assumes "i < length xs"
  shows "batchesOf (drop i xs) = slice i (i + 25) xs # batchesOf (drop (i + 25) xs)"
proof -
  from assms have "drop i xs \<noteq> []" by simp
  then have "batchesOf (drop i xs) = take 25 (drop i xs) # batchesOf (drop 25 (drop i xs))"
    by (subst batchesOf.simps) simp
  then show ?thesis by (simp add: slice_def add.commute)
qed

lemma batchesOf_Nil [simp]: "batchesOf [] = []"
  by (subst batchesOf.simps) simp

lemma saveSlidesLoop_calls:
  assumes "allSucceed w"
  shows "fst (saveSlidesLoop i requests w) = Inr ()
       \<and> calls (snd (saveSlidesLoop i requests w))
           = calls w @ expectedCalls (batchesOf (drop i requests)) (replies w)"
  using assms
proof (induction "length requests - i" arbitrary: i w rule: less_induct)
  case less
  show ?case
  proof (cases "i < length requests")
    case False
    then show ?thesis
      by (subst (1 2) saveSlidesLoop.simps) simp
  next
    case True
    let ?batch = "slice i (i + 25) requests"
    obtain ps where ps: "nextReply w = Succeeds ps"
      using nextReply_allSucceed [OF less.prems] by blast
    let ?w1 = "(issue (BatchWriteCommand ?batch) w)\<lparr>table := fold putItem (processedOf ps ?batch) (table w)\<rparr>"
    let ?u = "unprocessedOf ps ?batch"
    have s1: "sendBatchWrite ?batch w = (Inr ?u, ?w1)"
      by (rule sendBatchWrite_succeeds [OF ps])
    have a1: "allSucceed ?w1" using less.prems by simp
    have m: "length requests - (i + 25) < length requests - i" using True by simp
    have pos: "unprocessedPositions (replies w) = ps" by (rule nextReply_positions [OF ps])
    show ?thesis
    proof (cases "?u = []")
      case True
      have "saveSlidesLoop i requests w = saveSlidesLoop (i + 25) requests ?w1"
        using \<open>i < length requests\<close> True s1 by (subst saveSlidesLoop.simps) simp
      moreover note less.hyps [OF m a1]
      ultimately show ?thesis
        using True pos by (simp add: batchesOf_drop [OF \<open>i < length requests\<close>])
    next
      case False
      let ?w1' = "sleep 1000 ?w1"
      have a1': "allSucceed ?w1'" using a1 by simp
      obtain qs where qs: "nextReply ?w1' = Succeeds qs"
        using nextReply_allSucceed [OF a1'] by blast
      let ?w2 = "(issue (BatchWriteCommand ?u) ?w1')\<lparr>table := fold putItem (processedOf qs ?u) (table ?w1')\<rparr>"
      have s2: "sendBatchWrite ?u ?w1' = (Inr (unprocessedOf qs ?u), ?w2)"
        by (rule sendBatchWrite_succeeds [OF qs])
      have a2: "allSucceed ?w2" using a1' by simp
      have "saveSlidesLoop i requests w = saveSlidesLoop (i + 25) requests ?w2"
        using \<open>i < length requests\<close> False s1 s2 by (subst saveSlidesLoop.simps) simp
      moreover note less.hyps [OF m a2]
      ultimately show ?thesis
        using False pos by (simp add: batchesOf_drop [OF \<open>i < length requests\<close>])
    qed
  qed
qed

lemma writeRequests_length: "length (writeRequests presentationId now slides) = length slides"
  by (simp add: writeRequests_def)

lemma writeRequests_nth:
  assumes "i < length slides"
  shows "writeRequests presentationId now slides ! i = slideRequest presentationId now i (slides ! i)"
  using assms by (simp add: writeRequests_def nth_enumerate_eq)

lemma batchesOf_concat: "concat (batchesOf xs) = xs"
proof (induction xs rule: batchesOf.induct)
  case (1 xs)
  show ?case
  proof (cases "xs = []")
    case True
    then show ?thesis by simp
  next
    case False
    with 1 have "concat (batchesOf (drop 25 xs)) = drop 25 xs" by simp
    with False show ?thesis by (subst batchesOf.simps) simp
  qed
qed

lemma batchesOf_sizes: "b \<in> set (batchesOf xs) \<Longrightarrow> b \<noteq> [] \<and> length b \<le> 25"
proof (induction xs rule: batchesOf.induct)
  case (1 xs)
  show ?case
  proof (cases "xs = []")
    case True
    with 1(2) show ?thesis by simp
  next
    case False
    from 1(2) False have "b = take 25 xs \<or> b \<in> set (batchesOf (drop 25 xs))"
      by (subst (asm) batchesOf.simps) simp
    then show ?thesis
    proof
      assume "b = take 25 xs"
      with False show ?thesis by simp
    next
      assume "b \<in> set (batchesOf (drop 25 xs))"
      with 1(1) False show ?thesis by simp
    qed
  qed
qed

text \<open>
  C3. \<open>saveSlides\<close> on an array of \<open>N\<close> slides builds one put request per position,
  with \<open>slideIndex\<close> equal to the position and the slide of that position. In an
  environment where no call throws, the calls it issues are the ones prescribed for
  the consecutive batches of at most 25 requests, in position order: each batch is
  written once, a batch whose answer leaves requests unprocessed is followed by a wait
  of one second and one write of those requests, and the operation returns normally
  whatever that retry leaves unprocessed.
\<close>

theorem saveSlides_batches:
  assumes "allSucceed w"
  shows "length (writeRequests presentationId now slides) = length slides
       \<and> (\<forall>i<length slides.
             writeRequests presentationId now slides ! i
               = slideRequest presentationId now i (slides ! i)
           \<and> pk (writeRequests presentationId now slides ! i) = createPK presentationId
           \<and> sk (writeRequests presentationId now slides ! i) = createSK SLIDE (Some (int i))
           \<and> i_slideIndex (writeRequests presentationId now slides ! i) = Some (int i)
           \<and> i_slide (writeRequests presentationId now slides ! i) = Some (slides ! i))
       \<and> concat (batchesOf (writeRequests presentationId now slides))
           = writeRequests presentationId now slides
       \<and> (\<forall>b\<in>set (batchesOf (writeRequests presentationId now slides)). b \<noteq> [] \<and> length b \<le> 25)
       \<and> fst (saveSlides now presentationId slides w) = Inr ()
       \<and> calls (snd (saveSlides now presentationId slides w))
           = calls w @ expectedCalls (batchesOf (writeRequests presentationId now slides)) (replies w)"
proof -
  have n: "\<forall>i<length slides.
             writeRequests presentationId now slides ! i
               = slideRequest presentationId now i (slides ! i)
           \<and> pk (writeRequests presentationId now slides ! i) = createPK presentationId
           \<and> sk (writeRequests presentationId now slides ! i) = createSK SLIDE (Some (int i))
           \<and> i_slideIndex (writeRequests presentationId now slides ! i) = Some (int i)
           \<and> i_slide (writeRequests presentationId now slides ! i) = Some (slides ! i)"
    by (simp add: writeRequests_nth slideRequest_def emptyItem_def)
  have l: "fst (saveSlides now presentationId slides w) = Inr ()
       \<and> calls (snd (saveSlides now presentationId slides w))
           = calls w @ expectedCalls (batchesOf (writeRequests presentationId now slides)) (replies w)"
    using saveSlidesLoop_calls [OF assms, of 0 "writeRequests presentationId now slides"]
    by (simp add: saveSlides_def)
  have s: "\<forall>b\<in>set (batchesOf (writeRequests presentationId now slides)). b \<noteq> [] \<and> length b \<le> 25"
    using batchesOf_sizes by blast
  from n l s show ?thesis
    by (simp only: writeRequests_length batchesOf_concat simp_thms)
qed

section \<open>processMessage: the failure path\<close>

lemma notifyWebSocket_swallows:
  "notifyWebSocket env c m w
     = (Inr (), if getWebSocketEndpoint env = [] then w else issue (PostToConnectionCommand c m) w)"
  by (cases "nextReply w") (simp_all add: notifyWebSocket_def sendPostToConnection_def)

lemma updatePresentationStatus_throws:
  assumes "nextReply w = Throws e"
  shows "updatePresentationStatus now presentationId status errorMessage w
     = (Inl e, issue (UpdateCommand (createPK presentationId) ''METADATA''
          ([SetStatus status, SetUpdatedAt now]
             @ (case errorMessage of None \<Rightarrow> []
                | Some m \<Rightarrow> if m = [] then [] else [SetErrorMessage m]))) w)"
  using assms by (simp add: updatePresentationStatus_def sendUpdate_def)

lemma updatePresentationStatus_failed_stored:
  assumes "nextReply w = Succeeds ps"
  shows "\<exists>new w'. updatePresentationStatus now presentationId Failed (Some m) w = (Inr (), w')
           \<and> replies w' = tl (replies w)
           \<and> calls w' = calls w @ [UpdateCommand (createPK presentationId) ''METADATA''
                                      ([SetStatus Failed, SetUpdatedAt now]
                                         @ (if m = [] then [] else [SetErrorMessage m]))]
           \<and> getItem (table w') (createPK presentationId) ''METADATA'' = Some new
           \<and> i_status new = Some Failed
           \<and> (m \<noteq> [] \<longrightarrow> i_errorMessage new = Some m)"
  by (simp add: updatePresentationStatus_succeeds [OF assms] getItem_updateItem_same)

text \<open>
  The \<open>try\<close> block throws what generating the content, saving the slides or the
  update to \<open>completed\<close> throws, in the world that call leaves.
\<close>

lemma processMessage_try_throws:
  assumes "(generatePresentation (msg_title message) (msg_description message) = Inl error \<and> w1 = w)
         \<or> (\<exists>slides. generatePresentation (msg_title message) (msg_description message) = Inr slides
               \<and> saveSlides nowSlides (msg_presentationId message) slides w = (Inl error, w1))
         \<or> (\<exists>slides wa. generatePresentation (msg_title message) (msg_description message) = Inr slides
               \<and> saveSlides nowSlides (msg_presentationId message) slides w = (Inr (), wa)
               \<and> updatePresentationStatus nowCompleted (msg_presentationId message) Completed None wa
                    = (Inl error, w1))"
  shows "processMessage_try env generatePresentation nowSlides nowCompleted message w = (Inl error, w1)"
  using assms
proof (elim disjE exE conjE)
  assume "generatePresentation (msg_title message) (msg_description message) = Inl error" "w1 = w"
  then show ?thesis by (simp add: processMessage_try_def)
next
  fix slides
  assume "generatePresentation (msg_title message) (msg_description message) = Inr slides"
    "saveSlides nowSlides (msg_presentationId message) slides w = (Inl error, w1)"
  then show ?thesis by (simp add: processMessage_try_def)
next
  fix slides wa
  assume "generatePresentation (msg_title message) (msg_description message) = Inr slides"
    "saveSlides nowSlides (msg_presentationId message) slides w = (Inr (), wa)"
    "updatePresentationStatus nowCompleted (msg_presentationId message) Completed None wa
       = (Inl error, w1)"
  then show ?thesis by (simp add: processMessage_try_def)
qed

text \<open>
  C5 (as amended). An exception \<open>error\<close> is raised while generating or persisting
  content: \<open>generatePresentation\<close> throws it, or \<open>saveSlides\<close> throws it, or the update
  to \<open>completed\<close> throws it; \<open>w1\<close> is the world that call leaves. The worker then
  issues the update to \<open>failed\<close> with the exception's message (\<open>Unknown error\<close> for a
  thrown value that is not an \<open>Error\<close>; no message assignment for an empty message).
  If the store accepts that update, the stored status is \<open>failed\<close>, a non-empty
  message is stored as \<open>errorMessage\<close>, the notification is attempted when a
  connection id and an endpoint are there, and the original exception is thrown
  again whatever the notification's outcome. If the update to \<open>failed\<close> throws, its
  exception is thrown instead and nothing more is called. \<open>notifyWebSocket\<close> never
  throws, and a job whose generation, slide save and status update succeed returns
  normally whatever happens to its notification.
\<close>

theorem processMessage_failure_handling:
  "(\<forall>error w1.
       (generatePresentation (msg_title message) (msg_description message) = Inl error \<and> w1 = w)
     \<or> (\<exists>slides. generatePresentation (msg_title message) (msg_description message) = Inr slides
           \<and> saveSlides nowSlides (msg_presentationId message) slides w = (Inl error, w1))
     \<or> (\<exists>slides wa. generatePresentation (msg_title message) (msg_description message) = Inr slides
           \<and> saveSlides nowSlides (msg_presentationId message) slides w = (Inr (), wa)
           \<and> updatePresentationStatus nowCompleted (msg_presentationId message) Completed None wa
                = (Inl error, w1))
     \<longrightarrow> (\<forall>ps. nextReply w1 = Succeeds ps
             \<longrightarrow> (\<exists>new. fst (processMessage env generatePresentation nowSlides nowCompleted nowFailed
                               (Inr message) w) = Inl error
                    \<and> getItem (table (snd (processMessage env generatePresentation nowSlides
                                              nowCompleted nowFailed (Inr message) w)))
                         (createPK (msg_presentationId message)) (createSK METADATA None) = Some new
                    \<and> i_status new = Some Failed
                    \<and> (errorMessageOf error \<noteq> [] \<longrightarrow> i_errorMessage new = Some (errorMessageOf error))
                    \<and> calls (snd (processMessage env generatePresentation nowSlides nowCompleted
                                     nowFailed (Inr message) w))
                        = calls w1
                          @ UpdateCommand (createPK (msg_presentationId message)) ''METADATA''
                              ([SetStatus Failed, SetUpdatedAt nowFailed]
                                 @ (if errorMessageOf error = [] then []
                                    else [SetErrorMessage (errorMessageOf error)]))
                          # notificationCalls env (msg_connectionId message)
                              \<lparr>ws_type = PresentationFailed,
                               ws_presentationId = Some (msg_presentationId message),
                               ws_error = Some (errorMessageOf error),
                               ws_affectedSlides = None\<rparr>))
       \<and> (\<forall>error2. nextReply w1 = Throws error2
             \<longrightarrow> processMessage env generatePresentation nowSlides nowCompleted nowFailed
                          (Inr message) w
                   = (Inl error2,
                      issue (UpdateCommand (createPK (msg_presentationId message)) ''METADATA''
                               ([SetStatus Failed, SetUpdatedAt nowFailed]
                                  @ (if errorMessageOf error = [] then []
                                     else [SetErrorMessage (errorMessageOf error)]))) w1)))
   \<and> (\<forall>c m w'. fst (notifyWebSocket env c m (w' :: 's World)) = Inr ())
   \<and> (\<forall>slides wa wb. generatePresentation (msg_title message) (msg_description message) = Inr slides
          \<and> saveSlides nowSlides (msg_presentationId message) slides w = (Inr (), wa)
          \<and> updatePresentationStatus nowCompleted (msg_presentationId message) Completed None wa
               = (Inr (), wb)
        \<longrightarrow> fst (processMessage env generatePresentation nowSlides nowCompleted nowFailed
                   (Inr message) w) = Inr ())"
proof (intro conjI allI impI)
  fix error w1 ps
  assume raised:
     "(generatePresentation (msg_title message) (msg_description message) = Inl error \<and> w1 = w)
     \<or> (\<exists>slides. generatePresentation (msg_title message) (msg_description message) = Inr slides
           \<and> saveSlides nowSlides (msg_presentationId message) slides w = (Inl error, w1))
     \<or> (\<exists>slides wa. generatePresentation (msg_title message) (msg_description message) = Inr slides
           \<and> saveSlides nowSlides (msg_presentationId message) slides w = (Inr (), wa)
           \<and> updatePresentationStatus nowCompleted (msg_presentationId message) Completed None wa
                = (Inl error, w1))"
    and ps: "nextReply w1 = Succeeds ps"
  have t: "processMessage_try env generatePresentation nowSlides nowCompleted message w = (Inl error, w1)"
    using raised by (rule processMessage_try_throws)
  let ?pid = "msg_presentationId message"
  let ?as = "[SetStatus Failed, SetUpdatedAt nowFailed]
               @ (if errorMessageOf error = [] then [] else [SetErrorMessage (errorMessageOf error)])"
  from updatePresentationStatus_failed_stored [OF ps, of nowFailed ?pid "errorMessageOf error"]
  obtain new w2 where u: "updatePresentationStatus nowFailed ?pid Failed (Some (errorMessageOf error)) w1 = (Inr (), w2)"
    and c: "calls w2 = calls w1 @ [UpdateCommand (createPK ?pid) ''METADATA'' ?as]"
    and g: "getItem (table w2) (createPK ?pid) ''METADATA'' = Some new"
    and st: "i_status new = Some Failed"
    and em: "errorMessageOf error \<noteq> [] \<longrightarrow> i_errorMessage new = Some (errorMessageOf error)"
    by blast
  let ?P = "processMessage env generatePresentation nowSlides nowCompleted nowFailed (Inr message) w"
  have r: "fst ?P = Inl error"
    by (simp add: processMessage_def t u notifyWebSocket_swallows split: option.splits)
  have tb: "table (snd ?P) = table w2"
    by (simp add: processMessage_def t u notifyWebSocket_swallows split: option.splits)
  have cl: "calls (snd ?P) = calls w2 @ notificationCalls env (msg_connectionId message)
                              \<lparr>ws_type = PresentationFailed,
                               ws_presentationId = Some ?pid,
                               ws_error = Some (errorMessageOf error),
                               ws_affectedSlides = None\<rparr>"
    by (simp add: processMessage_def t u notifyWebSocket_swallows notificationCalls_def split: option.splits)
  show "\<exists>new. fst ?P = Inl error
                    \<and> getItem (table (snd ?P)) (createPK ?pid) (createSK METADATA None) = Some new
                    \<and> i_status new = Some Failed
                    \<and> (errorMessageOf error \<noteq> [] \<longrightarrow> i_errorMessage new = Some (errorMessageOf error))
                    \<and> calls (snd ?P)
                        = calls w1
                          @ UpdateCommand (createPK ?pid) ''METADATA'' ?as
                          # notificationCalls env (msg_connectionId message)
                              \<lparr>ws_type = PresentationFailed,
                               ws_presentationId = Some ?pid,
                               ws_error = Some (errorMessageOf error),
                               ws_affectedSlides = None\<rparr>"
    using r g st em by (intro exI [of _ new]) (simp add: tb cl c)
next
  fix error w1 error2
  assume raised:
     "(generatePresentation (msg_title message) (msg_description message) = Inl error \<and> w1 = w)
     \<or> (\<exists>slides. generatePresentation (msg_title message) (msg_description message) = Inr slides
           \<and> saveSlides nowSlides (msg_presentationId message) slides w = (Inl error, w1))
     \<or> (\<exists>slides wa. generatePresentation (msg_title message) (msg_description message) = Inr slides
           \<and> saveSlides nowSlides (msg_presentationId message) slides w = (Inr (), wa)
           \<and> updatePresentationStatus nowCompleted (msg_presentationId message) Completed None wa
                = (Inl error, w1))"
    and th: "nextReply w1 = Throws error2"
  have t: "processMessage_try env generatePresentation nowSlides nowCompleted message w = (Inl error, w1)"
    using raised by (rule processMessage_try_throws)
  show "processMessage env generatePresentation nowSlides nowCompleted nowFailed (Inr message) w
          = (Inl error2,
             issue (UpdateCommand (createPK (msg_presentationId message)) ''METADATA''
                      ([SetStatus Failed, SetUpdatedAt nowFailed]
                         @ (if errorMessageOf error = [] then []
                            else [SetErrorMessage (errorMessageOf error)]))) w1)"
    by (simp add: processMessage_def t updatePresentationStatus_throws [OF th])
next
  fix c m and w' :: "'s World"
  show "fst (notifyWebSocket env c m w') = Inr ()"
    by (simp add: notifyWebSocket_swallows)
next
  fix slides wa wb
  assume "generatePresentation (msg_title message) (msg_description message) = Inr slides
          \<and> saveSlides nowSlides (msg_presentationId message) slides w = (Inr (), wa)
          \<and> updatePresentationStatus nowCompleted (msg_presentationId message) Completed None wa
               = (Inr (), wb)"
  then show "fst (processMessage env generatePresentation nowSlides nowCompleted nowFailed
                   (Inr message) w) = Inr ()"
    by (simp add: processMessage_def processMessage_try_def notifyWebSocket_swallows split: option.splits)
qed

section \<open>The theorems at concrete inputs\<close>

lemmas example_defs = exampleTheme_def exampleInput_def exampleMetadata_def exampleWorld_def
  slideRequest_def emptyItem_def createPK_def createGSI1PK_def createGSI1SK_def

lemmas run_defs = getPresentation_def getPresentationMetadata_def sendGet_def sendQuery_def sendPut_def sendUpdate_def
  nextReply_def issue_def getItem_def putItem_def updateItem_def queryItems_def begins_with_def sortBySlideIndex_def firstPage_def bySlideIndex_def
  updatePresentationStatus_def savePresentationMetadata_def createdAtOr_def allSucceed_def

lemmas worker_defs = processMessage_def processMessage_try_def notifyWebSocket_def
  getWebSocketEndpoint_def sendPostToConnection_def errorMessageOf_def exampleMessage_def
  failingGeneration_def

text \<open>
  A metadata record and one slide record are stored for \<open>p1\<close>; after
  \<open>saveSlides("p1", [])\<close> the presentation still has that slide.
\<close>

theorem saveSlides_empty_then_getPresentation_counterexample:
  "fst (getPresentation id ''p1''
          (snd (saveSlides 2000 ''p1'' []
                  (exampleWorld [exampleMetadata Completed 1000 None,
                                 slideRequest ''p1'' 1000 0 ''intro''] []))))
     = Inr (Some \<lparr>p_id = Some ''p1'', p_title = Some ''Q4 Review'', p_description = Some ''desc'',
                   p_theme = Some exampleTheme, p_slides = [Some ''intro'']\<rparr>)"
  by (simp add: saveSlides_def writeRequests_def saveSlidesLoop.simps run_defs example_defs
        String_of_def decimal.simps padStart_def digitChar_def)

text \<open>
  The same table: the presentation read after \<open>saveSlides("p1", [])\<close> has the one
  stored slide. And a table with the metadata record only: the slide list is empty.
\<close>

theorem saveSlides_empty_then_getPresentation_witness:
  "allSucceed (exampleWorld [exampleMetadata Completed 1000 None,
                             slideRequest ''p1'' 1000 0 ''intro''] [])
   \<and> fitsOnePage (exampleWorld [exampleMetadata Completed 1000 None,
                                 slideRequest ''p1'' 1000 0 ''intro''] []) (createPK ''p1'') ''SLIDE#''
   \<and> getItem (table (exampleWorld [exampleMetadata Completed 1000 None,
                                    slideRequest ''p1'' 1000 0 ''intro''] []))
        (createPK ''p1'') (createSK METADATA None) = Some (exampleMetadata Completed 1000 None)
   \<and> (\<exists>p items. fst (getPresentation id ''p1''
                  (snd (saveSlides 2000 ''p1'' []
                          (exampleWorld [exampleMetadata Completed 1000 None,
                                         slideRequest ''p1'' 1000 0 ''intro''] []))))
             = Inr (Some p)
          \<and> p_id p = Some ''p1'' \<and> p_slides p = map i_slide items
          \<and> mset items = mset [slideRequest ''p1'' 1000 0 ''intro''] \<and> p_slides p \<noteq> [])
   \<and> (\<exists>p. fst (getPresentation id ''p1''
                  (snd (saveSlides 2000 ''p1'' [] (exampleWorld [exampleMetadata Completed 1000 None] []))))
             = Inr (Some p)
          \<and> p_id p = Some ''p1'' \<and> p_slides p = [])"
proof -
  let ?m = "exampleMetadata Completed 1000 None"
  let ?s = "slideRequest ''p1'' 1000 0 ''intro'' :: string Item"
  let ?w = "exampleWorld [?m, ?s] []"
  let ?R = "\<lambda>a b :: string Item. \<exists>m n. i_slideIndex a = Some m \<and> i_slideIndex b = Some n \<and> m \<le> n"
  have k: "padStart 3 ''0'' (String_of 0) = ''000''"
    by (simp add: String_of_def decimal.simps padStart_def digitChar_def numeral_2_eq_2)
  have a: "allSucceed ?w" by (simp add: allSucceed_def exampleWorld_def)
  have fp: "fitsOnePage ?w (createPK ''p1'') ''SLIDE#''" by (simp add: fitsOnePage_def exampleWorld_def)
  have g: "getItem (table ?w) (createPK ''p1'') (createSK METADATA None) = Some ?m"
    by (simp add: getItem_def example_defs)
  have st: "filter (\<lambda>x. pk x = createPK ''p1'' \<and> begins_with (sk x) ''SLIDE#'') (table ?w) = [?s]"
    by (simp add: begins_with_def example_defs k)
  have d: "\<forall>x\<in>set (table ?w). pk x = createPK ''p1'' \<and> begins_with (sk x) ''SLIDE#''
             \<longrightarrow> i_slideIndex x \<noteq> None"
    by (simp add: begins_with_def example_defs k)
  have i: "i_id ?m = Some ''p1''" by (simp add: exampleMetadata_def)
  from saveSlides_empty_then_getPresentation [of id "''p1''" 2000 ?w] a fp d g
  obtain p items where p: "fst (getPresentation id ''p1'' (snd (saveSlides 2000 ''p1'' [] ?w))) = Inr (Some p)"
    and pi: "p_id p = i_id ?m"
    and ps: "p_slides p = map i_slide items"
    and ms: "mset items = mset (filter (\<lambda>x. pk x = createPK ''p1'' \<and> begins_with (sk x) ''SLIDE#'')
                                  (table ?w))"
    and em: "p_slides p = [] \<longleftrightarrow>
               filter (\<lambda>x. pk x = createPK ''p1'' \<and> begins_with (sk x) ''SLIDE#'') (table ?w) = []"
    by blast
  from ms have ms': "mset items = mset [?s]" by (simp only: st)
  from em have ne: "p_slides p \<noteq> []" by (simp only: st) simp
  from pi i have pi': "p_id p = Some ''p1''" by simp
  from p pi' ps ms' ne
  have one: "\<exists>p items. fst (getPresentation id ''p1'' (snd (saveSlides 2000 ''p1'' [] ?w))) = Inr (Some p)
          \<and> p_id p = Some ''p1'' \<and> p_slides p = map i_slide items
          \<and> mset items = mset [?s] \<and> p_slides p \<noteq> []"
    by (intro exI [of _ p] exI [of _ items] conjI)
  let ?v = "exampleWorld [?m] [] :: string World"
  have a': "allSucceed ?v" by (simp add: allSucceed_def exampleWorld_def)
  have fp': "fitsOnePage ?v (createPK ''p1'') ''SLIDE#''" by (simp add: fitsOnePage_def exampleWorld_def)
  have g': "getItem (table ?v) (createPK ''p1'') (createSK METADATA None) = Some ?m"
    by (simp add: getItem_def example_defs)
  have st': "filter (\<lambda>x. pk x = createPK ''p1'' \<and> begins_with (sk x) ''SLIDE#'') (table ?v) = []"
    by (simp add: begins_with_def example_defs)
  have d': "\<forall>x\<in>set (table ?v). pk x = createPK ''p1'' \<and> begins_with (sk x) ''SLIDE#''
             \<longrightarrow> i_slideIndex x \<noteq> None"
    by (simp add: begins_with_def example_defs)
  from saveSlides_empty_then_getPresentation [of id "''p1''" 2000 ?v] a' fp' d' g'
  obtain q where q: "fst (getPresentation id ''p1'' (snd (saveSlides 2000 ''p1'' [] ?v))) = Inr (Some q)"
    and qi: "p_id q = i_id ?m"
    and qe: "p_slides q = [] \<longleftrightarrow>
               filter (\<lambda>x. pk x = createPK ''p1'' \<and> begins_with (sk x) ''SLIDE#'') (table ?v) = []"
    by blast
  from qe st' have qn: "p_slides q = []" by simp
  from qi i have qi': "p_id q = Some ''p1''" by simp
  from q qi' qn
  have two: "\<exists>p. fst (getPresentation id ''p1'' (snd (saveSlides 2000 ''p1'' [] ?v))) = Inr (Some p)
          \<and> p_id p = Some ''p1'' \<and> p_slides p = []"
    by (intro exI [of _ q] conjI)
  from a fp g one two show ?thesis by (intro conjI)
qed

theorem saveSlides_empty_no_write_witness:
  "saveSlides 2000 ''p1'' []
     (exampleWorld [exampleMetadata Completed 1000 None, slideRequest ''p1'' 1000 0 ''intro''] [])
   = (Inr (), exampleWorld [exampleMetadata Completed 1000 None, slideRequest ''p1'' 1000 0 ''intro''] [])"
  using saveSlides_empty_no_write [of 2000 "''p1''"
      "exampleWorld [exampleMetadata Completed 1000 None, slideRequest ''p1'' 1000 0 ''intro''] []"]
  by simp

text \<open>
  One slide, a first answer that leaves it unprocessed and a retry that leaves it
  unprocessed again: the operation returns normally after the three calls. And 26
  slides in an environment that processes everything: a batch of 25 and a batch of 1.
\<close>

theorem saveSlides_batches_witness:
  "allSucceed (exampleWorld [] [Succeeds [0], Succeeds [0]])
   \<and> fst (saveSlides 2000 ''p1'' [''intro''] (exampleWorld [] [Succeeds [0], Succeeds [0]])) = Inr ()
   \<and> calls (snd (saveSlides 2000 ''p1'' [''intro''] (exampleWorld [] [Succeeds [0], Succeeds [0]])))
       = [BatchWriteCommand [slideRequest ''p1'' 2000 0 ''intro''], SetTimeout 1000,
          BatchWriteCommand [slideRequest ''p1'' 2000 0 ''intro'']]
   \<and> allSucceed (exampleWorld [] [])
   \<and> calls (snd (saveSlides 2000 ''p1'' (replicate 26 ''s'') (exampleWorld [] [])))
       = [BatchWriteCommand (take 25 (writeRequests ''p1'' 2000 (replicate 26 ''s''))),
          BatchWriteCommand (drop 25 (writeRequests ''p1'' 2000 (replicate 26 ''s'')))]
   \<and> length (take 25 (writeRequests ''p1'' 2000 (replicate 26 ''s''))) = 25
   \<and> length (drop 25 (writeRequests ''p1'' 2000 (replicate 26 ''s''))) = 1"
proof -
  let ?w = "exampleWorld [] [Succeeds [0], Succeeds [0]] :: string World"
  have a: "allSucceed ?w" by (simp add: allSucceed_def exampleWorld_def)
  have r: "writeRequests ''p1'' 2000 [''intro''] = [slideRequest ''p1'' 2000 0 ''intro'']"
    by (simp add: writeRequests_def)
  have b: "batchesOf [slideRequest ''p1'' 2000 0 ''intro''] = [[slideRequest ''p1'' 2000 0 ''intro'']]"
    by (subst batchesOf.simps) simp
  have e: "expectedCalls [[slideRequest ''p1'' 2000 0 ''intro'']] (replies ?w)
       = [BatchWriteCommand [slideRequest ''p1'' 2000 0 ''intro''], SetTimeout 1000,
          BatchWriteCommand [slideRequest ''p1'' 2000 0 ''intro'']]"
    by (simp add: exampleWorld_def unprocessedPositions_def unprocessedOf_def)
  have c: "calls ?w = []" by (simp add: exampleWorld_def)
  from saveSlides_batches [OF a, of "''p1''" 2000 "[''intro'']"]
  have "fst (saveSlides 2000 ''p1'' [''intro''] ?w) = Inr ()"
    and "calls (snd (saveSlides 2000 ''p1'' [''intro''] ?w))
           = calls ?w @ expectedCalls (batchesOf (writeRequests ''p1'' 2000 [''intro''])) (replies ?w)"
    by blast+
  then have one: "fst (saveSlides 2000 ''p1'' [''intro''] ?w) = Inr ()"
    "calls (snd (saveSlides 2000 ''p1'' [''intro''] ?w))
       = [BatchWriteCommand [slideRequest ''p1'' 2000 0 ''intro''], SetTimeout 1000,
          BatchWriteCommand [slideRequest ''p1'' 2000 0 ''intro'']]"
    by (simp_all only: r b e c append_Nil)
  let ?v = "exampleWorld [] [] :: string World"
  let ?r = "writeRequests ''p1'' 2000 (replicate 26 ''s'')"
  have a': "allSucceed ?v" by (simp add: allSucceed_def exampleWorld_def)
  have l: "length ?r = 26" by (simp add: writeRequests_length)
  then have n: "?r \<noteq> []" "drop 25 ?r \<noteq> []" by auto
  have b2: "batchesOf (drop 25 ?r) = [drop 25 ?r]"
    using n(2) l by (subst batchesOf.simps) simp
  have b': "batchesOf ?r = [take 25 ?r, drop 25 ?r]"
    using n(1) b2 by (subst batchesOf.simps) simp
  have e': "expectedCalls [take 25 ?r, drop 25 ?r] (replies ?v)
             = [BatchWriteCommand (take 25 ?r), BatchWriteCommand (drop 25 ?r)]"
    by (simp add: exampleWorld_def unprocessedPositions_def unprocessedOf_def)
  have c': "calls ?v = []" by (simp add: exampleWorld_def)
  from saveSlides_batches [OF a', of "''p1''" 2000 "replicate 26 ''s''"]
  have "calls (snd (saveSlides 2000 ''p1'' (replicate 26 ''s'') ?v))
           = calls ?v @ expectedCalls (batchesOf ?r) (replies ?v)"
    by blast
  then have two: "calls (snd (saveSlides 2000 ''p1'' (replicate 26 ''s'') ?v))
       = [BatchWriteCommand (take 25 ?r), BatchWriteCommand (drop 25 ?r)]"
    by (simp only: b' e' c' append_Nil)
  have len: "length (take 25 ?r) = 25" "length (drop 25 ?r) = 1" using l by simp_all
  from a one a' two len show ?thesis by (intro conjI)
qed

text \<open>
  No record is stored for \<open>p1\<close>; a save at time 1000 and a save at time 2000 leave a
  record created at 1000 and updated at 2000. And a record created at 1000 is
  stored; a save at time 2000 keeps its creation time.
\<close>

theorem savePresentationMetadata_preserves_createdAt_witness:
  "allSucceed (exampleWorld [] [])
   \<and> (1000 :: int) \<noteq> 0
   \<and> (\<exists>first second.
          getItem (table (snd (savePresentationMetadata 1000 exampleInput (exampleWorld [] []))))
            (createPK ''p1'') (createSK METADATA None) = Some first
        \<and> getItem (table (snd (savePresentationMetadata 2000 exampleInput
                                  (snd (savePresentationMetadata 1000 exampleInput (exampleWorld [] []))))))
            (createPK ''p1'') (createSK METADATA None) = Some second
        \<and> i_createdAt first = Some 1000 \<and> i_createdAt second = Some 1000
        \<and> i_updatedAt second = Some 2000)
   \<and> allSucceed (exampleWorld [exampleMetadata Completed 1000 None] [])
   \<and> createdAtNonZero (table (exampleWorld [exampleMetadata Completed 1000 None] []))
   \<and> (\<exists>new. getItem (table (snd (savePresentationMetadata 2000 exampleInput
                                     (exampleWorld [exampleMetadata Completed 1000 None] []))))
                (createPK ''p1'') (createSK METADATA None) = Some new
          \<and> i_createdAt new = Some 1000 \<and> i_updatedAt new = Some 2000)
   \<and> createdAtNonZero (table (snd (savePresentationMetadata 2000 exampleInput
                                      (exampleWorld [exampleMetadata Completed 1000 None] []))))"
proof -
  let ?w = "exampleWorld [] [] :: string World"
  have a: "allSucceed ?w" by (simp add: allSucceed_def exampleWorld_def)
  have n: "(1000 :: int) \<noteq> 0" by simp
  have i: "in_id exampleInput = ''p1''" by (simp add: exampleInput_def)
  have e: "getItem (table ?w) (createPK (in_id exampleInput)) (createSK METADATA None) = None"
    by (simp add: getItem_def exampleWorld_def)
  note T = savePresentationMetadata_preserves_createdAt [OF a refl, of 1000 exampleInput 2000]
  from T n e
  obtain first second where
        "getItem (table (snd (savePresentationMetadata 1000 exampleInput ?w)))
            (createPK (in_id exampleInput)) (createSK METADATA None) = Some first"
    and "getItem (table (snd (savePresentationMetadata 2000 exampleInput
                                  (snd (savePresentationMetadata 1000 exampleInput ?w)))))
            (createPK (in_id exampleInput)) (createSK METADATA None) = Some second"
    and "i_createdAt first = Some 1000" and "i_createdAt second = i_createdAt first"
    and "i_updatedAt second = Some 2000"
    by blast
  then have one: "\<exists>first second.
          getItem (table (snd (savePresentationMetadata 1000 exampleInput ?w)))
            (createPK ''p1'') (createSK METADATA None) = Some first
        \<and> getItem (table (snd (savePresentationMetadata 2000 exampleInput
                                  (snd (savePresentationMetadata 1000 exampleInput ?w)))))
            (createPK ''p1'') (createSK METADATA None) = Some second
        \<and> i_createdAt first = Some 1000 \<and> i_createdAt second = Some 1000
        \<and> i_updatedAt second = Some 2000"
    by (intro exI [of _ first] exI [of _ second]) (simp add: i)
  let ?old = "exampleMetadata Completed 1000 None"
  let ?v = "exampleWorld [?old] []"
  have a': "allSucceed ?v" by (simp add: allSucceed_def exampleWorld_def)
  have inv: "createdAtNonZero (table ?v)"
    by (simp add: createdAtNonZero_def exampleWorld_def exampleMetadata_def)
  have g: "getItem (table ?v) (createPK (in_id exampleInput)) (createSK METADATA None) = Some ?old
             \<and> i_createdAt ?old = Some 1000"
    by (simp add: getItem_def example_defs)
  note U = savePresentationMetadata_preserves_createdAt [OF a' refl, of 2000 exampleInput 0]
  from U inv g
  have "\<exists>new. getItem (table (snd (savePresentationMetadata 2000 exampleInput ?v)))
                (createPK (in_id exampleInput)) (createSK METADATA None) = Some new
          \<and> i_createdAt new = Some 1000 \<and> i_updatedAt new = Some 2000"
    by blast
  then have two: "\<exists>new. getItem (table (snd (savePresentationMetadata 2000 exampleInput ?v)))
                (createPK ''p1'') (createSK METADATA None) = Some new
          \<and> i_createdAt new = Some 1000 \<and> i_updatedAt new = Some 2000"
    by (simp add: i)
  from U inv have three: "createdAtNonZero (table (snd (savePresentationMetadata 2000 exampleInput ?v)))"
    by simp
  from a n one a' inv two three show ?thesis by (intro conjI)
qed

theorem savePresentationMetadata_createdAt_zero_witness:
  "allSucceed (exampleWorld [exampleMetadata Completed 0 None] [])
   \<and> getItem (table (exampleWorld [exampleMetadata Completed 0 None] []))
        (createPK (in_id exampleInput)) (createSK METADATA None)
       = Some (exampleMetadata Completed 0 None)
   \<and> (\<exists>new. getItem (table (snd (savePresentationMetadata 1700000000000 exampleInput
                                     (exampleWorld [exampleMetadata Completed 0 None] []))))
                (createPK (in_id exampleInput)) (createSK METADATA None) = Some new
          \<and> i_createdAt new = Some 1700000000000 \<and> i_updatedAt new = Some 1700000000000)
   \<and> allSucceed (exampleWorld [exampleMetadata Completed 1000 None] [])
   \<and> getItem (table (exampleWorld [exampleMetadata Completed 1000 None] []))
        (createPK (in_id exampleInput)) (createSK METADATA None)
       = Some (exampleMetadata Completed 1000 None)
   \<and> (\<exists>new. getItem (table (snd (savePresentationMetadata 1700000000000 exampleInput
                                     (exampleWorld [exampleMetadata Completed 1000 None] []))))
                (createPK (in_id exampleInput)) (createSK METADATA None) = Some new
          \<and> i_createdAt new = Some 1000 \<and> i_updatedAt new = Some 1700000000000)"
proof -
  let ?old = "exampleMetadata Completed 0 None"
  let ?w = "exampleWorld [?old] []"
  have a: "allSucceed ?w" by (simp add: allSucceed_def exampleWorld_def)
  have g: "getItem (table ?w) (createPK (in_id exampleInput)) (createSK METADATA None) = Some ?old"
    by (simp add: getItem_def example_defs)
  have z: "i_createdAt ?old = Some 0" by (simp add: exampleMetadata_def)
  from savePresentationMetadata_createdAt_zero [OF a g, of 1700000000000] z
  have e: "\<exists>new. getItem (table (snd (savePresentationMetadata 1700000000000 exampleInput ?w)))
                (createPK (in_id exampleInput)) (createSK METADATA None) = Some new
          \<and> i_createdAt new = Some 1700000000000 \<and> i_updatedAt new = Some 1700000000000"
    by blast
  let ?old' = "exampleMetadata Completed 1000 None"
  let ?w' = "exampleWorld [?old'] []"
  have a': "allSucceed ?w'" by (simp add: allSucceed_def exampleWorld_def)
  have g': "getItem (table ?w') (createPK (in_id exampleInput)) (createSK METADATA None) = Some ?old'"
    by (simp add: getItem_def example_defs)
  have z': "i_createdAt ?old' = Some 1000 \<and> (1000 :: int) \<noteq> 0" by (simp add: exampleMetadata_def)
  from savePresentationMetadata_createdAt_zero [OF a' g', of 1700000000000] z'
  have e': "\<exists>new. getItem (table (snd (savePresentationMetadata 1700000000000 exampleInput ?w')))
                (createPK (in_id exampleInput)) (createSK METADATA None) = Some new
          \<and> i_createdAt new = Some 1000 \<and> i_updatedAt new = Some 1700000000000"
    by blast
  from a g e a' g' e' show ?thesis by (intro conjI)
qed

theorem updatePresentationStatus_frame_witness:
  "nextReply (exampleWorld [exampleMetadata Failed 1000 (Some ''boom'')] []) = Succeeds []
   \<and> getItem (table (exampleWorld [exampleMetadata Failed 1000 (Some ''boom'')] []))
        (createPK ''p1'') (createSK METADATA None) = Some (exampleMetadata Failed 1000 (Some ''boom''))
   \<and> (\<exists>new. getItem (table (snd (updatePresentationStatus 2000 ''p1'' Completed None
                                     (exampleWorld [exampleMetadata Failed 1000 (Some ''boom'')] []))))
                (createPK ''p1'') (createSK METADATA None) = Some new
          \<and> i_status new = Some Completed \<and> i_updatedAt new = Some 2000
          \<and> i_errorMessage new = Some ''boom'' \<and> i_createdAt new = Some 1000
          \<and> i_title new = Some ''Q4 Review'')"
proof -
  let ?old = "exampleMetadata Failed 1000 (Some ''boom'')"
  let ?w = "exampleWorld [?old] []"
  have h1: "nextReply ?w = Succeeds []" by (simp add: nextReply_def exampleWorld_def)
  have h2: "getItem (table ?w) (createPK ''p1'') (createSK METADATA None) = Some ?old"
    by (simp add: getItem_def example_defs)
  from updatePresentationStatus_frame [OF h1 h2, of 2000 Completed None]
  obtain new where "getItem (table (snd (updatePresentationStatus 2000 ''p1'' Completed None ?w)))
                (createPK ''p1'') (createSK METADATA None) = Some new"
    and "i_status new = Some Completed" and "i_updatedAt new = Some 2000"
    and "i_errorMessage new = i_errorMessage ?old" and "i_createdAt new = i_createdAt ?old"
    and "i_title new = i_title ?old"
    by blast
  then have "\<exists>new. getItem (table (snd (updatePresentationStatus 2000 ''p1'' Completed None ?w)))
                (createPK ''p1'') (createSK METADATA None) = Some new
          \<and> i_status new = Some Completed \<and> i_updatedAt new = Some 2000
          \<and> i_errorMessage new = Some ''boom'' \<and> i_createdAt new = Some 1000
          \<and> i_title new = Some ''Q4 Review''"
    by (intro exI [of _ new]) (simp add: exampleMetadata_def)
  with h1 h2 show ?thesis by (intro conjI)
qed

text \<open>
  A generation that throws \<open>new Error("")\<close> for a presentation whose record holds a
  stale message: the worker stores \<open>failed\<close> and the stale message stays.
\<close>

theorem updatePresentationStatus_empty_message_witness:
  "nextReply (exampleWorld [exampleMetadata Processing 1000 (Some ''stale'')] []) = Succeeds []
   \<and> getItem (table (exampleWorld [exampleMetadata Processing 1000 (Some ''stale'')] []))
        (createPK ''p1'') (createSK METADATA None)
       = Some (exampleMetadata Processing 1000 (Some ''stale''))
   \<and> (\<exists>new. getItem (table (snd (updatePresentationStatus 2000 ''p1'' Failed (Some '''')
                                     (exampleWorld [exampleMetadata Processing 1000 (Some ''stale'')] []))))
                (createPK ''p1'') (createSK METADATA None) = Some new
          \<and> i_status new = Some Failed \<and> i_errorMessage new = Some ''stale'')
   \<and> table (snd (processMessage None (\<lambda>t d. Inl (Error '''')) 2000 2001 2002 (Inr exampleMessage)
                    (exampleWorld [exampleMetadata Processing 1000 (Some ''stale'')] [])))
       = [(exampleMetadata Processing 1000 (Some ''stale''))
            \<lparr>i_status := Some Failed, i_updatedAt := Some 2002\<rparr>]"
proof -
  let ?old = "exampleMetadata Processing 1000 (Some ''stale'')"
  let ?w = "exampleWorld [?old] []"
  have h1: "nextReply ?w = Succeeds []" by (simp add: nextReply_def exampleWorld_def)
  have h2: "getItem (table ?w) (createPK ''p1'') (createSK METADATA None) = Some ?old"
    by (simp add: getItem_def example_defs)
  from updatePresentationStatus_empty_message [of 2000 "''p1''" Failed ?w] h1 h2
  obtain new where "getItem (table (snd (updatePresentationStatus 2000 ''p1'' Failed (Some '''') ?w)))
                (createPK ''p1'') (createSK METADATA None) = Some new"
    and "i_status new = Some Failed" and "i_errorMessage new = i_errorMessage ?old"
    by blast
  then have e: "\<exists>new. getItem (table (snd (updatePresentationStatus 2000 ''p1'' Failed (Some '''') ?w)))
                (createPK ''p1'') (createSK METADATA None) = Some new
          \<and> i_status new = Some Failed \<and> i_errorMessage new = Some ''stale''"
    by (intro exI [of _ new]) (simp add: exampleMetadata_def)
  have p: "table (snd (processMessage None (\<lambda>t d. Inl (Error '''')) 2000 2001 2002 (Inr exampleMessage) ?w))
       = [?old\<lparr>i_status := Some Failed, i_updatedAt := Some 2002\<rparr>]"
    by (simp add: worker_defs run_defs example_defs)
  from h1 h2 e p show ?thesis by (intro conjI)
qed


text \<open>
  Generation throws and the store refuses the update to \<open>failed\<close>: the store's
  exception is thrown, the status stays \<open>processing\<close> and no notification is sent.
\<close>

theorem processMessage_failure_handling_counterexample:
  "fst (processMessage (Some ''wss://ws.example'') failingGeneration 2000 2001 2002 (Inr exampleMessage)
          (exampleWorld [exampleMetadata Processing 1000 None] [Throws (Error ''store unavailable'')]))
     = Inl (Error ''store unavailable'')
   \<and> table (snd (processMessage (Some ''wss://ws.example'') failingGeneration 2000 2001 2002
                    (Inr exampleMessage)
                    (exampleWorld [exampleMetadata Processing 1000 None]
                       [Throws (Error ''store unavailable'')])))
     = [exampleMetadata Processing 1000 None]
   \<and> calls (snd (processMessage (Some ''wss://ws.example'') failingGeneration 2000 2001 2002
                    (Inr exampleMessage)
                    (exampleWorld [exampleMetadata Processing 1000 None]
                       [Throws (Error ''store unavailable'')])))
     = [UpdateCommand ''PRESENTATION#p1'' ''METADATA''
          [SetStatus Failed, SetUpdatedAt 2002, SetErrorMessage ''No response from OpenAI'']]"
  by (simp add: worker_defs run_defs example_defs)

text \<open>
  Three jobs for \<open>p1\<close> in which the store accepts the update to \<open>failed\<close>: generation
  throws and the push to the connection throws too; the batch write of
  \<open>saveSlides\<close> throws; the update to \<open>completed\<close> throws. Each time the exception
  first raised is thrown again and the stored status is \<open>failed\<close> with its message.
  And a job in which everything but the push to the connection succeeds returns
  normally.
\<close>

theorem processMessage_failure_handling_witness:
  "nextReply (exampleWorld [exampleMetadata Processing 1000 None]
                [Succeeds [], Throws (Error ''gone'')] :: string World) = Succeeds []
   \<and> (\<exists>new. fst (processMessage (Some ''wss://ws.example'') failingGeneration 2000 2001 2002
                 (Inr exampleMessage)
                 (exampleWorld [exampleMetadata Processing 1000 None]
                    [Succeeds [], Throws (Error ''gone'')]))
          = Inl (Error ''No response from OpenAI'')
        \<and> getItem (table (snd (processMessage (Some ''wss://ws.example'') failingGeneration 2000 2001 2002
                 (Inr exampleMessage)
                 (exampleWorld [exampleMetadata Processing 1000 None]
                    [Succeeds [], Throws (Error ''gone'')]))))
             (createPK ''p1'') (createSK METADATA None) = Some new
        \<and> i_status new = Some Failed
        \<and> i_errorMessage new = Some ''No response from OpenAI''
        \<and> calls (snd (processMessage (Some ''wss://ws.example'') failingGeneration 2000 2001 2002
                 (Inr exampleMessage)
                 (exampleWorld [exampleMetadata Processing 1000 None]
                    [Succeeds [], Throws (Error ''gone'')])))
            = [UpdateCommand (createPK ''p1'') ''METADATA''
                 [SetStatus Failed, SetUpdatedAt 2002, SetErrorMessage ''No response from OpenAI''],
               PostToConnectionCommand ''conn1''
                 \<lparr>ws_type = PresentationFailed, ws_presentationId = Some ''p1'',
                  ws_error = Some ''No response from OpenAI'', ws_affectedSlides = None\<rparr>])
   \<and> fst (saveSlides 2000 ''p1'' [''intro'']
            (exampleWorld [exampleMetadata Processing 1000 None]
               [Throws (Error ''write refused'')])) = Inl (Error ''write refused'')
   \<and> (\<exists>new. fst (processMessage None succeedingGeneration 2000 2001 2002 (Inr exampleMessage)
                   (exampleWorld [exampleMetadata Processing 1000 None]
                      [Throws (Error ''write refused'')]))
            = Inl (Error ''write refused'')
          \<and> getItem (table (snd (processMessage None succeedingGeneration 2000 2001 2002
                   (Inr exampleMessage)
                   (exampleWorld [exampleMetadata Processing 1000 None]
                      [Throws (Error ''write refused'')]))))
               (createPK ''p1'') (createSK METADATA None) = Some new
          \<and> i_status new = Some Failed \<and> i_errorMessage new = Some ''write refused'')
   \<and> fst (updatePresentationStatus 2001 ''p1'' Completed None
            (snd (saveSlides 2000 ''p1'' [''intro'']
                    (exampleWorld [exampleMetadata Processing 1000 None]
                       [Succeeds [], Throws (Error ''update refused'')]))))
       = Inl (Error ''update refused'')
   \<and> (\<exists>new. fst (processMessage None succeedingGeneration 2000 2001 2002 (Inr exampleMessage)
                   (exampleWorld [exampleMetadata Processing 1000 None]
                      [Succeeds [], Throws (Error ''update refused'')]))
            = Inl (Error ''update refused'')
          \<and> getItem (table (snd (processMessage None succeedingGeneration 2000 2001 2002
                   (Inr exampleMessage)
                   (exampleWorld [exampleMetadata Processing 1000 None]
                      [Succeeds [], Throws (Error ''update refused'')]))))
               (createPK ''p1'') (createSK METADATA None) = Some new
          \<and> i_status new = Some Failed \<and> i_errorMessage new = Some ''update refused'')
   \<and> fst (processMessage (Some ''wss://ws.example'') succeedingGeneration 2000 2001 2002
            (Inr exampleMessage)
            (exampleWorld [exampleMetadata Processing 1000 None]
               [Succeeds [], Succeeds [], Throws (Error ''gone'')])) = Inr ()"
proof -
  let ?m = "exampleMetadata Processing 1000 None"
  have m: "msg_presentationId exampleMessage = ''p1''"
    "msg_connectionId exampleMessage = Some ''conn1''"
    by (simp_all add: exampleMessage_def)
  have gs: "succeedingGeneration (msg_title exampleMessage) (msg_description exampleMessage)
             = Inr [''intro'']"
    by (simp add: succeedingGeneration_def)

  \<comment> \<open>generation throws\<close>
  let ?w = "exampleWorld [?m] [Succeeds [], Throws (Error ''gone'')] :: string World"
  let ?e = "Error ''No response from OpenAI''"
  let ?P = "processMessage (Some ''wss://ws.example'') failingGeneration 2000 2001 2002
                 (Inr exampleMessage) ?w"
  have n: "nextReply ?w = Succeeds []" by (simp add: nextReply_def exampleWorld_def)
  have hG: "(failingGeneration (msg_title exampleMessage) (msg_description exampleMessage) = Inl ?e
               \<and> ?w = ?w)
         \<or> (\<exists>slides. failingGeneration (msg_title exampleMessage) (msg_description exampleMessage)
                        = Inr slides
               \<and> saveSlides 2000 (msg_presentationId exampleMessage) slides ?w = (Inl ?e, ?w))
         \<or> (\<exists>slides wa. failingGeneration (msg_title exampleMessage) (msg_description exampleMessage)
                           = Inr slides
               \<and> saveSlides 2000 (msg_presentationId exampleMessage) slides ?w = (Inr (), wa)
               \<and> updatePresentationStatus 2001 (msg_presentationId exampleMessage) Completed None wa
                    = (Inl ?e, ?w))"
    by (simp add: failingGeneration_def)
  have em: "errorMessageOf ?e = ''No response from OpenAI''" by (simp add: errorMessageOf_def)
  have c: "calls ?w = []" by (simp add: exampleWorld_def)
  have nc: "notificationCalls (Some ''wss://ws.example'') (Some ''conn1'') msg
              = [PostToConnectionCommand ''conn1'' msg]" for msg :: "string WebSocketMessage"
    by (simp add: notificationCalls_def getWebSocketEndpoint_def)
  note TG = processMessage_failure_handling
              [where generatePresentation = failingGeneration and message = exampleMessage
                 and w = ?w and nowSlides = 2000
                 and nowCompleted = 2001 and env = "Some ''wss://ws.example''" and nowFailed = 2002,
               THEN conjunct1, THEN spec, THEN spec, THEN mp, OF hG]
  from TG n
  obtain new where "fst ?P = Inl ?e"
     and "getItem (table (snd ?P)) (createPK (msg_presentationId exampleMessage))
            (createSK METADATA None) = Some new"
     and "i_status new = Some Failed"
     and "errorMessageOf ?e \<noteq> [] \<longrightarrow> i_errorMessage new = Some (errorMessageOf ?e)"
     and "calls (snd ?P) = calls ?w
            @ UpdateCommand (createPK (msg_presentationId exampleMessage)) ''METADATA''
                ([SetStatus Failed, SetUpdatedAt 2002]
                   @ (if errorMessageOf ?e = [] then [] else [SetErrorMessage (errorMessageOf ?e)]))
            # notificationCalls (Some ''wss://ws.example'') (msg_connectionId exampleMessage)
                \<lparr>ws_type = PresentationFailed,
                 ws_presentationId = Some (msg_presentationId exampleMessage),
                 ws_error = Some (errorMessageOf ?e), ws_affectedSlides = None\<rparr>"
    by blast
  then have one: "\<exists>new. fst ?P = Inl ?e
        \<and> getItem (table (snd ?P)) (createPK ''p1'') (createSK METADATA None) = Some new
        \<and> i_status new = Some Failed
        \<and> i_errorMessage new = Some ''No response from OpenAI''
        \<and> calls (snd ?P)
            = [UpdateCommand (createPK ''p1'') ''METADATA''
                 [SetStatus Failed, SetUpdatedAt 2002, SetErrorMessage ''No response from OpenAI''],
               PostToConnectionCommand ''conn1''
                 \<lparr>ws_type = PresentationFailed, ws_presentationId = Some ''p1'',
                  ws_error = Some ''No response from OpenAI'', ws_affectedSlides = None\<rparr>]"
    by (intro exI [of _ new]) (simp add: m em c nc)

  \<comment> \<open>the batch write of saveSlides throws\<close>
  let ?ws = "exampleWorld [?m] [Throws (Error ''write refused'')] :: string World"
  let ?es = "Error ''write refused''"
  let ?w1s = "snd (saveSlides 2000 ''p1'' [''intro''] ?ws)"
  let ?Ps = "processMessage None succeedingGeneration 2000 2001 2002 (Inr exampleMessage) ?ws"
  have ss: "fst (saveSlides 2000 ''p1'' [''intro''] ?ws) = Inl ?es"
    and rs: "replies ?w1s = []"
    by (simp_all add: saveSlides_def writeRequests_def saveSlidesLoop.simps sendBatchWrite_def
          nextReply_def issue_def slice_def exampleWorld_def)
  have ns: "nextReply ?w1s = Succeeds []" by (simp add: nextReply_def rs)
  have "saveSlides 2000 (msg_presentationId exampleMessage) [''intro''] ?ws = (Inl ?es, ?w1s)"
    using ss by (simp add: prod_eq_iff m)
  with gs have "\<exists>slides. succeedingGeneration (msg_title exampleMessage) (msg_description exampleMessage)
                        = Inr slides
               \<and> saveSlides 2000 (msg_presentationId exampleMessage) slides ?ws = (Inl ?es, ?w1s)"
    by (intro exI [of _ "[''intro'']"] conjI)
  then have hS: "(succeedingGeneration (msg_title exampleMessage) (msg_description exampleMessage)
                    = Inl ?es \<and> ?w1s = ?ws)
         \<or> (\<exists>slides. succeedingGeneration (msg_title exampleMessage) (msg_description exampleMessage)
                        = Inr slides
               \<and> saveSlides 2000 (msg_presentationId exampleMessage) slides ?ws = (Inl ?es, ?w1s))
         \<or> (\<exists>slides wa. succeedingGeneration (msg_title exampleMessage) (msg_description exampleMessage)
                           = Inr slides
               \<and> saveSlides 2000 (msg_presentationId exampleMessage) slides ?ws = (Inr (), wa)
               \<and> updatePresentationStatus 2001 (msg_presentationId exampleMessage) Completed None wa
                    = (Inl ?es, ?w1s))"
    by (intro disjI2 disjI1)
  have ems: "errorMessageOf ?es = ''write refused''" by (simp add: errorMessageOf_def)
  note TS = processMessage_failure_handling
              [where generatePresentation = succeedingGeneration and message = exampleMessage
                 and w = ?ws and nowSlides = 2000
                 and nowCompleted = 2001 and env = None and nowFailed = 2002,
               THEN conjunct1, THEN spec, THEN spec, THEN mp, OF hS]
  from TS ns
  obtain new2 where "fst ?Ps = Inl ?es"
     and "getItem (table (snd ?Ps)) (createPK (msg_presentationId exampleMessage))
            (createSK METADATA None) = Some new2"
     and "i_status new2 = Some Failed"
     and "errorMessageOf ?es \<noteq> [] \<longrightarrow> i_errorMessage new2 = Some (errorMessageOf ?es)"
    by blast
  then have two: "\<exists>new. fst ?Ps = Inl ?es
          \<and> getItem (table (snd ?Ps)) (createPK ''p1'') (createSK METADATA None) = Some new
          \<and> i_status new = Some Failed \<and> i_errorMessage new = Some ''write refused''"
    by (intro exI [of _ new2]) (simp add: m ems)

  \<comment> \<open>the update to completed throws\<close>
  let ?wu = "exampleWorld [?m] [Succeeds [], Throws (Error ''update refused'')] :: string World"
  let ?eu = "Error ''update refused''"
  let ?wa = "snd (saveSlides 2000 ''p1'' [''intro''] ?wu)"
  let ?w1u = "snd (updatePresentationStatus 2001 ''p1'' Completed None ?wa)"
  let ?Pu = "processMessage None succeedingGeneration 2000 2001 2002 (Inr exampleMessage) ?wu"
  have su: "fst (saveSlides 2000 ''p1'' [''intro''] ?wu) = Inr ()"
    and ra: "replies ?wa = [Throws (Error ''update refused'')]"
    by (simp_all add: saveSlides_def writeRequests_def saveSlidesLoop.simps sendBatchWrite_def
          nextReply_def issue_def slice_def exampleWorld_def unprocessedOf_def)
  have na: "nextReply ?wa = Throws ?eu" by (simp add: nextReply_def ra)
  have uu: "fst (updatePresentationStatus 2001 ''p1'' Completed None ?wa) = Inl ?eu"
    and ru: "replies ?w1u = []"
    by (simp_all add: updatePresentationStatus_throws [OF na] ra)
  have nu: "nextReply ?w1u = Succeeds []" by (simp add: nextReply_def ru)
  have s1: "saveSlides 2000 (msg_presentationId exampleMessage) [''intro''] ?wu = (Inr (), ?wa)"
    using su by (simp add: prod_eq_iff m)
  have s2: "updatePresentationStatus 2001 (msg_presentationId exampleMessage) Completed None ?wa
              = (Inl ?eu, ?w1u)"
    using uu by (simp add: prod_eq_iff m)
  from gs s1 s2
  have "\<exists>slides wa. succeedingGeneration (msg_title exampleMessage) (msg_description exampleMessage)
                           = Inr slides
               \<and> saveSlides 2000 (msg_presentationId exampleMessage) slides ?wu = (Inr (), wa)
               \<and> updatePresentationStatus 2001 (msg_presentationId exampleMessage) Completed None wa
                    = (Inl ?eu, ?w1u)"
    by (intro exI [of _ "[''intro'']"] exI [of _ ?wa] conjI)
  then have hU: "(succeedingGeneration (msg_title exampleMessage) (msg_description exampleMessage)
                    = Inl ?eu \<and> ?w1u = ?wu)
         \<or> (\<exists>slides. succeedingGeneration (msg_title exampleMessage) (msg_description exampleMessage)
                        = Inr slides
               \<and> saveSlides 2000 (msg_presentationId exampleMessage) slides ?wu = (Inl ?eu, ?w1u))
         \<or> (\<exists>slides wa. succeedingGeneration (msg_title exampleMessage) (msg_description exampleMessage)
                           = Inr slides
               \<and> saveSlides 2000 (msg_presentationId exampleMessage) slides ?wu = (Inr (), wa)
               \<and> updatePresentationStatus 2001 (msg_presentationId exampleMessage) Completed None wa
                    = (Inl ?eu, ?w1u))"
    by (intro disjI2)
  have emu: "errorMessageOf ?eu = ''update refused''" by (simp add: errorMessageOf_def)
  note TU = processMessage_failure_handling
              [where generatePresentation = succeedingGeneration and message = exampleMessage
                 and w = ?wu and nowSlides = 2000
                 and nowCompleted = 2001 and env = None and nowFailed = 2002,
               THEN conjunct1, THEN spec, THEN spec, THEN mp, OF hU]
  from TU nu
  obtain new3 where "fst ?Pu = Inl ?eu"
     and "getItem (table (snd ?Pu)) (createPK (msg_presentationId exampleMessage))
            (createSK METADATA None) = Some new3"
     and "i_status new3 = Some Failed"
     and "errorMessageOf ?eu \<noteq> [] \<longrightarrow> i_errorMessage new3 = Some (errorMessageOf ?eu)"
    by blast
  then have three: "\<exists>new. fst ?Pu = Inl ?eu
          \<and> getItem (table (snd ?Pu)) (createPK ''p1'') (createSK METADATA None) = Some new
          \<and> i_status new = Some Failed \<and> i_errorMessage new = Some ''update refused''"
    by (intro exI [of _ new3]) (simp add: m emu)
  have uu': "fst (updatePresentationStatus 2001 ''p1'' Completed None
            (snd (saveSlides 2000 ''p1'' [''intro''] ?wu))) = Inl ?eu"
    by (rule uu)

  \<comment> \<open>only the notification fails\<close>
  let ?v = "exampleWorld [?m] [Succeeds [], Succeeds [], Throws (Error ''gone'')] :: string World"
  let ?va = "snd (saveSlides 2000 ''p1'' [''intro''] ?v)"
  let ?vb = "snd (updatePresentationStatus 2001 ''p1'' Completed None ?va)"
  have sa: "fst (saveSlides 2000 ''p1'' [''intro''] ?v) = Inr ()"
    and rv: "replies ?va = [Succeeds [], Throws (Error ''gone'')]"
    by (simp_all add: saveSlides_def writeRequests_def saveSlidesLoop.simps sendBatchWrite_def
          nextReply_def issue_def slice_def exampleWorld_def unprocessedOf_def)
  have sv: "saveSlides 2000 (msg_presentationId exampleMessage) [''intro''] ?v = (Inr (), ?va)"
    using sa by (simp add: prod_eq_iff m)
  have nv: "nextReply ?va = Succeeds []" by (simp add: nextReply_def rv)
  have "fst (updatePresentationStatus 2001 ''p1'' Completed None ?va) = Inr ()"
    by (simp add: updatePresentationStatus_succeeds [OF nv])
  then have uv: "updatePresentationStatus 2001 (msg_presentationId exampleMessage) Completed None ?va
                  = (Inr (), ?vb)"
    by (simp add: prod_eq_iff m)
  note TV = processMessage_failure_handling
              [where generatePresentation = succeedingGeneration and message = exampleMessage
                 and w = ?v and nowSlides = 2000 and nowCompleted = 2001
                 and env = "Some ''wss://ws.example''" and nowFailed = 2002,
               THEN conjunct2, THEN conjunct2]
  from TV gs sv uv
  have four: "fst (processMessage (Some ''wss://ws.example'') succeedingGeneration 2000 2001 2002
                   (Inr exampleMessage) ?v) = Inr ()"
    by blast
  from n one ss two uu' three four show ?thesis by (intro conjI)
qed


end
